theory Spec2Isabelle
  imports Complex_Main
begin

section \<open>Common ground: exceptions and tensors\<close>

text \<open>
  The package never catches an exception, so a raise ends the run: a fallible operation
  returns \<open>error + 'a\<close> with \<open>Inl\<close> for the exception, and the caller passes the
  exception on. \<open>UtilError\<close> stands for whatever a collaborator outside the modelled
  files may raise.
\<close>

datatype error = AssertionError | AttributeError | IndexError | ShapeError | UtilError

fun ebind :: "error + 'a \<Rightarrow> ('a \<Rightarrow> error + 'b) \<Rightarrow> error + 'b" where
  "ebind (Inl e) f = Inl e"
| "ebind (Inr x) f = f x"

text \<open>
  A torch tensor of floats is a nested list of reals (floating point rounding, infinities
  and NaN are not modelled): \<open>tensor2\<close> has two dimensions, \<open>tensor3\<close> three.
\<close>

type_synonym tensor1 = "real list"
type_synonym tensor2 = "real list list"
type_synonym tensor3 = "real list list list"

section \<open>settings.py\<close>

text \<open>
  \<^verbatim>\<open>class Settings\<close> and \<^verbatim>\<open>class LayerSettings\<close> of settings.py: plain attribute
  holders. The constructors have no \<^verbatim>\<open>raise\<close> and no \<^verbatim>\<open>assert\<close>; each argument is
  assigned to the attribute of the same name. \<open>Inr\<close> is the normal return.
\<close>

record Settings =
  layer_sizes :: "int list"
  data_size :: int
  batch_size :: int
  learning_rate :: real
  epochs :: int
  encode_spike_trains :: bool
  dt :: real
  percentage_inhibitory :: real
  exc_to_inhib_conn_c :: real
  exc_to_inhib_conn_sigma_squared :: real
  layer_sparsity :: real
  device :: string

definition Settings_init ::
  "int list \<Rightarrow> int \<Rightarrow> int \<Rightarrow> real \<Rightarrow> int \<Rightarrow> bool \<Rightarrow> real \<Rightarrow> real \<Rightarrow> real \<Rightarrow> real \<Rightarrow> real \<Rightarrow> string
     \<Rightarrow> error + Settings" where
  "Settings_init a_layer_sizes a_data_size a_batch_size a_learning_rate a_epochs
       a_encode_spike_trains a_dt a_percentage_inhibitory a_exc_to_inhib_conn_c
       a_exc_to_inhib_conn_sigma_squared a_layer_sparsity a_device =
     Inr \<lparr> layer_sizes = a_layer_sizes,
           data_size = a_data_size,
           batch_size = a_batch_size,
           learning_rate = a_learning_rate,
           epochs = a_epochs,
           encode_spike_trains = a_encode_spike_trains,
           dt = a_dt,
           percentage_inhibitory = a_percentage_inhibitory,
           exc_to_inhib_conn_c = a_exc_to_inhib_conn_c,
           exc_to_inhib_conn_sigma_squared = a_exc_to_inhib_conn_sigma_squared,
           layer_sparsity = a_layer_sparsity,
           device = a_device \<rparr>"

record LayerSettings =
  ls_layer_id :: int
  ls_prev_size :: int
  ls_size :: int
  ls_next_size :: int
  ls_batch_size :: int
  ls_learning_rate :: real
  ls_data_size :: int
  ls_dt :: real
  ls_percentage_inhibitory :: real
  ls_exc_to_inhib_conn_c :: real
  ls_exc_to_inhib_conn_sigma_squared :: real
  ls_layer_sparsity :: real
  ls_device :: string

definition LayerSettings_init ::
  "int \<Rightarrow> int \<Rightarrow> int \<Rightarrow> int \<Rightarrow> int \<Rightarrow> real \<Rightarrow> int \<Rightarrow> real \<Rightarrow> real \<Rightarrow> real \<Rightarrow> real \<Rightarrow> real \<Rightarrow> string
     \<Rightarrow> error + LayerSettings" where
  "LayerSettings_init a_layer_id a_prev_size a_size a_next_size a_batch_size a_learning_rate
       a_data_size a_dt a_percentage_inhibitory a_exc_to_inhib_conn_c
       a_exc_to_inhib_conn_sigma_squared a_layer_sparsity a_device =
     Inr \<lparr> ls_layer_id = a_layer_id,
           ls_prev_size = a_prev_size,
           ls_size = a_size,
           ls_next_size = a_next_size,
           ls_batch_size = a_batch_size,
           ls_learning_rate = a_learning_rate,
           ls_data_size = a_data_size,
           ls_dt = a_dt,
           ls_percentage_inhibitory = a_percentage_inhibitory,
           ls_exc_to_inhib_conn_c = a_exc_to_inhib_conn_c,
           ls_exc_to_inhib_conn_sigma_squared = a_exc_to_inhib_conn_sigma_squared,
           ls_layer_sparsity = a_layer_sparsity,
           ls_device = a_device \<rparr>"

section \<open>network.py\<close>

text \<open>
  \<^verbatim>\<open>class Net\<close> of network.py drives objects of \<^verbatim>\<open>model.src.layer.Layer\<close>, a class
  that is not among the files at hand. Its two methods that \<open>Net\<close> calls while
  processing data are therefore parameters: \<open>layer_forward\<close> is
  \<^verbatim>\<open>layer.forward(data)\<close> / \<^verbatim>\<open>layer.forward()\<close> and \<open>layer_train_synapses\<close> is
  \<^verbatim>\<open>layer.train_synapses(spk, data)\<close>. The layers point at each other (prev/next), so
  the mutable state of all Layer objects together is one store \<open>'st\<close>; \<open>'l\<close> is a
  reference to one Layer object and \<open>'k\<close> is what \<open>forward\<close> returns.
\<close>

record ('l, 'st, 'k) layer_ops =
  layer_forward :: "'l \<Rightarrow> tensor2 option \<Rightarrow> 'st \<Rightarrow> error + ('k \<times> 'st)"
  layer_train_synapses :: "'l \<Rightarrow> 'k \<Rightarrow> tensor2 \<Rightarrow> 'st \<Rightarrow> error + 'st"

text \<open>The attributes of a \<open>Net\<close> object that data processing reads.\<close>

record 'l Net =
  settings :: Settings
  layers :: "'l list"

text \<open>\<^verbatim>\<open>tensor.to(device)\<close> moves a tensor and keeps its values.\<close>

definition to_device :: "'a \<Rightarrow> string \<Rightarrow> 'a" where
  "to_device t dev = t"

text \<open>
  The loop \<^verbatim>\<open>for i, layer in enumerate(self.layers)\<close>, which stands with the same body
  in \<^verbatim>\<open>process_data_single_timestep\<close> (lines 75-81) and in \<^verbatim>\<open>process_data_online\<close>
  (lines 99-105): \<open>forward\<close> of the layer (with the data only at position 0), then at
  once \<open>train_synapses\<close> of the same layer with the spike just returned.
\<close>

fun layers_loop ::
  "('l, 'st, 'k) layer_ops \<Rightarrow> tensor2 \<Rightarrow> (nat \<times> 'l) list \<Rightarrow> 'st \<Rightarrow> error + 'st" where
  "layers_loop ops data [] st = Inr st"
| "layers_loop ops data ((i, layer) # rest) st =
     ebind (if i = 0 then layer_forward ops layer (Some data) st
            else layer_forward ops layer None st)
       (\<lambda>(spk, st1).
          ebind (layer_train_synapses ops layer spk data st1)
            (\<lambda>st2. layers_loop ops data rest st2))"

definition process_data_single_timestep ::
  "('l, 'st, 'k) layer_ops \<Rightarrow> 'l Net \<Rightarrow> tensor2 \<Rightarrow> 'st \<Rightarrow> error + 'st" where
  "process_data_single_timestep ops net data0 st =
     (let data = to_device data0 (device (settings net))
      in layers_loop ops data (enumerate 0 (layers net)) st)"

text \<open>
  \<^verbatim>\<open>batch.permute(1, 0, 2)\<close> swaps the first two dimensions:
  (batch_size, num_steps, data_size) becomes (num_steps, batch_size, data_size).
  A DataLoader yields batches of at least one sample.
\<close>

definition permute_1_0_2 :: "tensor3 \<Rightarrow> tensor3" where
  "permute_1_0_2 batch = transpose batch"

text \<open>\<^verbatim>\<open>(batch > 0.5).float()\<close>: 1.0 where the entry is above 0.5, else 0.0.\<close>

definition threshold_half :: "tensor3 \<Rightarrow> tensor3" where
  "threshold_half batch = map (map (map (\<lambda>x. if x > 0.5 then 1 else 0))) batch"

text \<open>
  \<^verbatim>\<open>for timestep in range(batch.shape[0])\<close> with the layer loop as its body; the data of
  the step is \<^verbatim>\<open>batch[timestep]\<close>.
\<close>

fun timesteps_loop ::
  "('l, 'st, 'k) layer_ops \<Rightarrow> 'l Net \<Rightarrow> tensor3 \<Rightarrow> nat list \<Rightarrow> 'st \<Rightarrow> error + 'st" where
  "timesteps_loop ops net batch [] st = Inr st"
| "timesteps_loop ops net batch (timestep # later) st =
     ebind (layers_loop ops (batch ! timestep) (enumerate 0 (layers net)) st)
       (\<lambda>st1. timesteps_loop ops net batch later st1)"

text \<open>
  The body of \<^verbatim>\<open>for i, batch in enumerate(train_loader)\<close> up to the end of the timestep
  loop (lines 87-105): move, permute, threshold when \<open>encode_spike_trains\<close> is set, then
  every timestep in order.
\<close>

definition process_batch ::
  "('l, 'st, 'k) layer_ops \<Rightarrow> 'l Net \<Rightarrow> tensor3 \<Rightarrow> 'st \<Rightarrow> error + 'st" where
  "process_batch ops net batch0 st =
     (let batch1 = to_device batch0 (device (settings net));
          batch2 = permute_1_0_2 batch1;
          batch3 = (if encode_spike_trains (settings net) then threshold_half batch2 else batch2)
      in timesteps_loop ops net batch3 [0..<length batch3] st)"

text \<open>
  The batch loop. Its body ends with \<^verbatim>\<open>return\<close> (line 108, under the comment
  \<^verbatim>\<open># TODO: remove when network is stabilized\<close>), which leaves \<open>process_data_online\<close>
  after the first batch: the batches after it are never looked at. The flag of the result
  says whether the method has returned; an empty loader ends the loop without returning.
\<close>

fun batches_loop ::
  "('l, 'st, 'k) layer_ops \<Rightarrow> 'l Net \<Rightarrow> tensor3 list \<Rightarrow> 'st \<Rightarrow> error + ('st \<times> bool)" where
  "batches_loop ops net [] st = Inr (st, False)"
| "batches_loop ops net (batch # rest) st =
     ebind (process_batch ops net batch st) (\<lambda>st1. Inr (st1, True))"

text \<open>
  \<^verbatim>\<open>for epoch in range(self.settings.epochs)\<close>: the loader is iterated afresh in every
  epoch (the list \<open>train_loader\<close> is what one iteration yields).
\<close>

fun epochs_loop ::
  "('l, 'st, 'k) layer_ops \<Rightarrow> 'l Net \<Rightarrow> tensor3 list \<Rightarrow> nat \<Rightarrow> 'st \<Rightarrow> error + 'st" where
  "epochs_loop ops net train_loader 0 st = Inr st"
| "epochs_loop ops net train_loader (Suc remaining) st =
     ebind (batches_loop ops net train_loader st)
       (\<lambda>(st1, returned).
          if returned then Inr st1 else epochs_loop ops net train_loader remaining st1)"

definition process_data_online ::
  "('l, 'st, 'k) layer_ops \<Rightarrow> 'l Net \<Rightarrow> tensor3 list \<Rightarrow> 'st \<Rightarrow> error + 'st" where
  "process_data_online ops net train_loader st =
     epochs_loop ops net train_loader (nat (epochs (settings net))) st"

subsection \<open>Recording the calls\<close>

text \<open>
  To speak about the order of the calls, the layer methods are instantiated by ones that
  only write down that they were called: the store is the list of calls so far, a layer
  reference is its position, and the spike a \<open>forward\<close> returns is the number of calls
  logged before it, which identifies the \<open>forward\<close> call that made it.
\<close>

datatype event = EvForward nat "tensor2 option" | EvTrainSynapses nat nat tensor2

definition trace_ops :: "(nat, event list, nat) layer_ops" where
  "trace_ops =
     \<lparr> layer_forward = (\<lambda>layer data calls. Inr (length calls, calls @ [EvForward layer data])),
       layer_train_synapses = (\<lambda>layer spk data calls. Inr (calls @ [EvTrainSynapses layer spk data])) \<rparr>"

fun is_forward :: "event \<Rightarrow> bool" where
  "is_forward (EvForward layer data) = True"
| "is_forward (EvTrainSynapses layer spk data) = False"

text \<open>
  The order "every forward pass first, the plasticity updates after them": once a
  \<open>train_synapses\<close> call is logged, no \<open>forward\<close> call follows.
\<close>

definition forwards_first :: "event list \<Rightarrow> bool" where
  "forwards_first calls = list_all (\<lambda>e. \<not> is_forward e) (dropWhile is_forward calls)"

text \<open>The tensors handed to \<open>forward\<close> calls, in call order.\<close>

fun forward_inputs :: "event list \<Rightarrow> tensor2 list" where
  "forward_inputs [] = []"
| "forward_inputs (EvForward layer (Some data) # calls) = data # forward_inputs calls"
| "forward_inputs (e # calls) = forward_inputs calls"

text \<open>A network of \<open>n\<close> recorded layers.\<close>

definition trace_net :: "Settings \<Rightarrow> nat \<Rightarrow> nat Net" where
  "trace_net s n = \<lparr> settings = s, layers = [0..<n] \<rparr>"

section \<open>model.py: tensors\<close>

text \<open>
  Elementwise operations follow torch's broadcasting rule, dimension by dimension: two
  sizes go together when they are equal or one of them is 1 (that side is repeated);
  anything else raises. \<open>collect\<close> passes on the first exception of a list of results.
  A dimension of size 0 has no nested-list form that keeps the inner sizes, so batch
  size and layer sizes are at least 1 wherever it matters.
\<close>

fun collect :: "(error + 'a) list \<Rightarrow> error + 'a list" where
  "collect [] = Inr []"
| "collect (r # rs) = ebind r (\<lambda>v. ebind (collect rs) (\<lambda>vs. Inr (v # vs)))"

definition broadcast :: "('a \<Rightarrow> 'b \<Rightarrow> error + 'c) \<Rightarrow> 'a list \<Rightarrow> 'b list \<Rightarrow> error + 'c list" where
  "broadcast f xs ys =
     (if length xs = length ys then collect (map2 f xs ys)
      else if length xs = 1 then collect (map (\<lambda>y. f (hd xs) y) ys)
      else if length ys = 1 then collect (map (\<lambda>x. f x (hd ys)) xs)
      else Inl ShapeError)"

text \<open>An in-place operation keeps the shape of its left operand: only the right one is repeated.\<close>

definition broadcast_to :: "('a \<Rightarrow> 'b \<Rightarrow> error + 'a) \<Rightarrow> 'a list \<Rightarrow> 'b list \<Rightarrow> error + 'a list" where
  "broadcast_to f xs ys =
     (if length xs = length ys then collect (map2 f xs ys)
      else if length ys = 1 then collect (map (\<lambda>x. f x (hd ys)) xs)
      else Inl ShapeError)"

definition pointwise :: "(real \<Rightarrow> real \<Rightarrow> real) \<Rightarrow> real \<Rightarrow> real \<Rightarrow> error + real" where
  "pointwise g x y = Inr (g x y)"

definition ew2 :: "(real \<Rightarrow> real \<Rightarrow> real) \<Rightarrow> tensor2 \<Rightarrow> tensor2 \<Rightarrow> error + tensor2" where
  "ew2 g = broadcast (broadcast (pointwise g))"

definition ew3 :: "(real \<Rightarrow> real \<Rightarrow> real) \<Rightarrow> tensor3 \<Rightarrow> tensor3 \<Rightarrow> error + tensor3" where
  "ew3 g = broadcast (broadcast (broadcast (pointwise g)))"

definition iadd2 :: "tensor2 \<Rightarrow> tensor2 \<Rightarrow> error + tensor2" where
  "iadd2 = broadcast_to (broadcast_to (pointwise (+)))"

text \<open>A function of one entry applied to every entry (a scalar operand).\<close>

definition map2d :: "(real \<Rightarrow> real) \<Rightarrow> tensor2 \<Rightarrow> tensor2" where
  "map2d g t = map (map g) t"

definition map3d :: "(real \<Rightarrow> real) \<Rightarrow> tensor3 \<Rightarrow> tensor3" where
  "map3d g t = map (map (map g)) t"

definition zeros2 :: "nat \<Rightarrow> nat \<Rightarrow> tensor2" where
  "zeros2 rows cols = replicate rows (replicate cols 0)"

definition ones2 :: "nat \<Rightarrow> nat \<Rightarrow> tensor2" where
  "ones2 rows cols = replicate rows (replicate cols 1)"

text \<open>\<^verbatim>\<open>t.unsqueeze(1)\<close> and \<^verbatim>\<open>t.unsqueeze(2)\<close> of a tensor of two dimensions.\<close>

definition unsqueeze1 :: "tensor2 \<Rightarrow> tensor3" where
  "unsqueeze1 t = map (\<lambda>row. [row]) t"

definition unsqueeze2 :: "tensor2 \<Rightarrow> tensor3" where
  "unsqueeze2 t = map (map (\<lambda>x. [x])) t"

text \<open>
  \<^verbatim>\<open>t.expand(-1, n, -1)\<close> and \<^verbatim>\<open>t.expand(-1, -1, n)\<close>: the named dimension must have
  size 1 (it is repeated \<open>n\<close> times) or already size \<open>n\<close>.
\<close>

definition expand_to :: "nat \<Rightarrow> 'a list \<Rightarrow> error + 'a list" where
  "expand_to n xs =
     (if length xs = n then Inr xs
      else if length xs = 1 then Inr (replicate n (hd xs))
      else Inl ShapeError)"

definition expand_dim1 :: "nat \<Rightarrow> tensor3 \<Rightarrow> error + tensor3" where
  "expand_dim1 n t = collect (map (expand_to n) t)"

definition expand_dim2 :: "nat \<Rightarrow> tensor3 \<Rightarrow> error + tensor3" where
  "expand_dim2 n t = collect (map (\<lambda>m. collect (map (expand_to n) m)) t)"

text \<open>
  \<^verbatim>\<open>t.sum(0)\<close>: entry (j, k) of the result is the sum of the entries (b, j, k) over
  the first dimension.
\<close>

definition sum0 :: "tensor3 \<Rightarrow> tensor2" where
  "sum0 t =
     (case t of
        [] \<Rightarrow> []
      | m # ms \<Rightarrow>
          map (\<lambda>j. map (\<lambda>k. sum_list (map (\<lambda>x. x ! j ! k) t)) [0..<length (m ! j)])
            [0..<length m])"

text \<open>
  \<^verbatim>\<open>xs[-k]\<close> on a deque (\<open>k\<close> at least 1): the \<open>k\<close>-th entry from the right,
  IndexError when there are fewer than \<open>k\<close>.
\<close>

definition index_neg :: "'a list \<Rightarrow> nat \<Rightarrow> error + 'a" where
  "index_neg xs k =
     (if 1 \<le> k \<and> k \<le> length xs then Inr (xs ! (length xs - k)) else Inl IndexError)"

text \<open>
  \<^verbatim>\<open>deque.append(x)\<close> on a deque with \<^verbatim>\<open>maxlen\<close>: the item goes to the right end and,
  when the deque is then longer than \<open>maxlen\<close>, one item is dropped from the left end.
\<close>

definition deque_append :: "nat \<Rightarrow> 'a list \<Rightarrow> 'a \<Rightarrow> 'a list" where
  "deque_append maxlen xs x =
     (let ys = xs @ [x] in if length ys > maxlen then tl ys else ys)"

section \<open>model.py: constants and settings\<close>

definition THETA_REST :: real where "THETA_REST = 0"
definition BETA :: real where "BETA = 1"
definition LAMBDA_HEBBIAN :: real where "LAMBDA_HEBBIAN = 1"
definition XI :: real where "XI = 1 / 1000"
definition DELTA :: real where "DELTA = 1 / 100000"
definition TAU_RISE_ALPHA :: real where "TAU_RISE_ALPHA = 2"
definition TAU_FALL_ALPHA :: real where "TAU_FALL_ALPHA = 10"
definition TAU_RISE_EPSILON :: real where "TAU_RISE_EPSILON = 5"
definition TAU_FALL_EPSILON :: real where "TAU_FALL_EPSILON = 20"
definition MAX_RETAINED_MEMS :: nat where "MAX_RETAINED_MEMS = 2"
definition DATA_MEM_ASSUMPTION :: real where "DATA_MEM_ASSUMPTION = 1 / 2"

text \<open>
  model.py has classes \<open>Settings\<close>, \<open>LayerSettings\<close> and \<open>Net\<close> of its own; their names
  and fields carry a prefix here to keep them apart from the ones of settings.py and
  network.py. Sizes are natural numbers: torch refuses a negative size.
\<close>

record model_Settings =
  ms_layer_sizes :: "nat list"
  ms_beta :: real
  ms_learn_beta :: bool
  ms_num_steps :: nat
  ms_data_size :: nat
  ms_batch_size :: nat
  ms_learning_rate :: real
  ms_epochs :: int

record model_LayerSettings =
  mls_prev_size :: nat
  mls_size :: nat
  mls_next_size :: nat
  mls_beta :: real
  mls_learn_beta :: bool
  mls_batch_size :: nat
  mls_learning_rate :: real
  mls_data_size :: nat

section \<open>model.py: the collaborators of util.py\<close>

text \<open>
  \<open>MovingAverageLIF\<close>, \<open>SpikeMovingAverage\<close>, \<open>TemporalFilter\<close> and
  \<open>VarianceMovingAverage\<close> come from \<^verbatim>\<open>model.src.util\<close>, which is not among the files
  at hand. Their states are type parameters and their methods are parameters:
  \<^item> \<open>'lif\<close>: a MovingAverageLIF; \<open>lif_call\<close> is \<^verbatim>\<open>forward_lif(current, mem)\<close> and
    returns \<open>(spk, mem)\<close>; \<open>spike_moving_average\<close> and \<open>lif_variance_moving_average\<close>
    read its two attributes of these names;
  \<^item> \<open>'tf\<close>: a TemporalFilter; \<open>filter_apply2\<close> and \<open>filter_apply3\<close> are its
    \<^verbatim>\<open>apply\<close> on a tensor of two and of three dimensions;
  \<^item> \<open>'sma\<close>: a SpikeMovingAverage with its attribute \<open>spike_rec\<close> and its methods
    \<^verbatim>\<open>apply\<close> and \<^verbatim>\<open>tracked_value\<close>;
  \<^item> \<open>'vma\<close>: a VarianceMovingAverage with \<^verbatim>\<open>apply\<close> and \<^verbatim>\<open>tracked_value\<close>.
  A method gets the state of its own object and its arguments, and returns its result
  with the new state of its object: none of these objects holds a reference to a Layer.
\<close>

record ('lif, 'tf, 'sma, 'vma) util =
  MovingAverageLIF_init :: "nat \<Rightarrow> nat \<Rightarrow> real \<Rightarrow> bool \<Rightarrow> 'lif"
  init_leaky :: "'lif \<Rightarrow> tensor2"
  lif_call :: "'lif \<Rightarrow> tensor2 \<Rightarrow> tensor2 \<Rightarrow> error + ((tensor2 \<times> tensor2) \<times> 'lif)"
  spike_moving_average :: "'lif \<Rightarrow> 'sma"
  lif_variance_moving_average :: "'lif \<Rightarrow> 'vma"
  TemporalFilter_init :: "real \<Rightarrow> real \<Rightarrow> 'tf"
  filter_apply2 :: "'tf \<Rightarrow> tensor2 \<Rightarrow> error + (tensor2 \<times> 'tf)"
  filter_apply3 :: "'tf \<Rightarrow> tensor3 \<Rightarrow> error + (tensor3 \<times> 'tf)"
  SpikeMovingAverage_init :: "nat \<Rightarrow> nat \<Rightarrow> 'sma"
  sma_apply :: "'sma \<Rightarrow> tensor2 \<Rightarrow> error + (tensor2 \<times> 'sma)"
  spike_rec :: "'sma \<Rightarrow> tensor2 list"
  sma_tracked_value :: "'sma \<Rightarrow> error + tensor2"
  VarianceMovingAverage_init :: "'vma"
  vma_apply :: "'vma \<Rightarrow> tensor2 \<Rightarrow> tensor2 \<Rightarrow> error + (tensor2 \<times> 'vma)"
  vma_tracked_value :: "'vma \<Rightarrow> error + tensor2"

section \<open>model.py: Layer\<close>

text \<open>
  \<^verbatim>\<open>nn.Linear(in_features, out_features)\<close>: a weight of shape
  (out_features, in_features) and a bias of length out_features, both drawn at random
  when the module is made; the draw is the pair of functions given to \<open>Linear_init\<close>.
  Applying the module to \<open>x\<close> gives \<open>x W\<^sup>T + b\<close> and raises when the last
  dimension of \<open>x\<close> is not in_features.
\<close>

record Linear =
  in_features :: nat
  out_features :: nat
  weight :: tensor2
  bias :: tensor1

definition Linear_init :: "nat \<Rightarrow> nat \<Rightarrow> (nat \<Rightarrow> nat \<Rightarrow> real) \<Rightarrow> (nat \<Rightarrow> real) \<Rightarrow> Linear" where
  "Linear_init n_in n_out w0 b0 =
     \<lparr> in_features = n_in,
       out_features = n_out,
       weight = map (\<lambda>j. map (\<lambda>k. w0 j k) [0..<n_in]) [0..<n_out],
       bias = map b0 [0..<n_out] \<rparr>"

definition Linear_call :: "Linear \<Rightarrow> tensor2 \<Rightarrow> error + tensor2" where
  "Linear_call lin x =
     collect (map (\<lambda>row.
        if length row = in_features lin
        then Inr (map2 (\<lambda>w b. sum_list (map2 (*) row w) + b) (weight lin) (bias lin))
        else Inl ShapeError) x)"

text \<open>
  The attributes of a Layer. \<open>prev_layer\<close> and \<open>next_layer\<close> refer to other Layer
  objects: the layers of a network are a list, and a reference is a position in it.
\<close>

record ('lif, 'tf, 'sma, 'vma) Layer =
  layer_settings :: model_LayerSettings
  forward_weights :: Linear
  forward_lif :: 'lif
  mem_rec :: "tensor2 list"
  prev_layer :: "nat option"
  next_layer :: "nat option"
  mem :: tensor2
  alpha_filter_first_term :: 'tf
  epsilon_filter_second_term :: 'tf
  alpha_filter_second_term :: 'tf
  data_spike_moving_average :: 'sma
  variance_moving_average :: 'vma

text \<open>\<^verbatim>\<open>Layer.__init__\<close>: the deque \<open>mem_rec\<close> starts with two zero tensors.\<close>

definition Layer_init ::
  "('lif, 'tf, 'sma, 'vma) util \<Rightarrow> model_LayerSettings \<Rightarrow> (nat \<Rightarrow> nat \<Rightarrow> real) \<Rightarrow> (nat \<Rightarrow> real)
     \<Rightarrow> ('lif, 'tf, 'sma, 'vma) Layer" where
  "Layer_init U ls w0 b0 =
     (let lif = MovingAverageLIF_init U (mls_batch_size ls) (mls_size ls) (mls_beta ls)
                  (mls_learn_beta ls);
          z = zeros2 (mls_batch_size ls) (mls_size ls)
      in \<lparr> layer_settings = ls,
           forward_weights = Linear_init (mls_prev_size ls) (mls_size ls) w0 b0,
           forward_lif = lif,
           mem_rec = deque_append MAX_RETAINED_MEMS (deque_append MAX_RETAINED_MEMS [] z) z,
           prev_layer = None,
           next_layer = None,
           mem = init_leaky U lif,
           alpha_filter_first_term = TemporalFilter_init U TAU_RISE_ALPHA TAU_FALL_ALPHA,
           epsilon_filter_second_term = TemporalFilter_init U TAU_RISE_EPSILON TAU_FALL_EPSILON,
           alpha_filter_second_term = TemporalFilter_init U TAU_RISE_ALPHA TAU_FALL_ALPHA,
           data_spike_moving_average =
             SpikeMovingAverage_init U (mls_batch_size ls) (mls_data_size ls),
           variance_moving_average = VarianceMovingAverage_init U \<rparr>)"

definition set_next_layer :: "('lif, 'tf, 'sma, 'vma) Layer \<Rightarrow> nat \<Rightarrow> ('lif, 'tf, 'sma, 'vma) Layer" where
  "set_next_layer L nxt = L\<lparr>next_layer := Some nxt\<rparr>"

definition set_prev_layer :: "('lif, 'tf, 'sma, 'vma) Layer \<Rightarrow> nat \<Rightarrow> ('lif, 'tf, 'sma, 'vma) Layer" where
  "set_prev_layer L prv = L\<lparr>prev_layer := Some prv\<rparr>"

text \<open>
  \<^verbatim>\<open>Layer.forward\<close> of the layer at position \<open>i\<close>. Without data it asserts that there
  is a previous layer and then reads \<^verbatim>\<open>self.prev_layer.spk_rec[-1]\<close>; class Layer has the
  deque \<open>mem_rec\<close> but no attribute \<open>spk_rec\<close> (no method assigns one and
  \<^verbatim>\<open>nn.Module\<close> has none), so that read raises AttributeError. With data, the current
  is the linear map of the data, the neuron is called with it and the stored membrane,
  and the new membrane is stored and appended to \<open>mem_rec\<close>.
\<close>

definition forward ::
  "('lif, 'tf, 'sma, 'vma) util \<Rightarrow> ('lif, 'tf, 'sma, 'vma) Layer list \<Rightarrow> nat \<Rightarrow> tensor2 option
     \<Rightarrow> error + ((tensor2 \<times> tensor2) \<times> ('lif, 'tf, 'sma, 'vma) Layer list)" where
  "forward U net i data =
     (let self = net ! i in
      ebind (case data of
               None \<Rightarrow> (case prev_layer self of
                          None \<Rightarrow> Inl AssertionError
                        | Some prv \<Rightarrow> Inl AttributeError)
             | Some d \<Rightarrow> Linear_call (forward_weights self) d)
        (\<lambda>current.
           ebind (lif_call U (forward_lif self) current (mem self))
             (\<lambda>((spk, mem1), lif1).
                Inr ((spk, mem1),
                     net[i := self\<lparr> forward_lif := lif1,
                                     mem := mem1,
                                     mem_rec := deque_append MAX_RETAINED_MEMS (mem_rec self) mem1 \<rparr>]))))"

text \<open>
  \<^verbatim>\<open>Layer.train_forward\<close>, in the order of its statements. Lines 159-162: with data,
  the layer's own spike average and variance trackers are fed first.
\<close>

definition update_data_trackers ::
  "('lif, 'tf, 'sma, 'vma) util \<Rightarrow> ('lif, 'tf, 'sma, 'vma) Layer list \<Rightarrow> nat \<Rightarrow> tensor2 option
     \<Rightarrow> error + ('lif, 'tf, 'sma, 'vma) Layer list" where
  "update_data_trackers U net i data =
     (let self = net ! i in
      case data of
        None \<Rightarrow> Inr net
      | Some d \<Rightarrow>
          ebind (sma_apply U (data_spike_moving_average self) d)
            (\<lambda>(data_mean, sma1).
               ebind (vma_apply U (variance_moving_average self) d data_mean)
                 (\<lambda>(variance, vma1).
                    Inr (net[i := self\<lparr> data_spike_moving_average := sma1,
                                         variance_moving_average := vma1 \<rparr>]))))"

text \<open>
  Lines 169-171: the membrane of the presynaptic side, a constant for the first layer
  and the newest entry of the previous layer's \<open>mem_rec\<close> otherwise.
\<close>

definition prev_layer_mem ::
  "('lif, 'tf, 'sma, 'vma) Layer list \<Rightarrow> nat \<Rightarrow> error + tensor2" where
  "prev_layer_mem net i =
     (let self = net ! i in
      case prev_layer self of
        None \<Rightarrow>
          Inr (map2d (\<lambda>x. x * DATA_MEM_ASSUMPTION)
                 (ones2 (mls_batch_size (layer_settings self))
                        (mls_data_size (layer_settings self))))
      | Some prv \<Rightarrow> index_neg (mem_rec (net ! prv)) 1)"

text \<open>
  Lines 172-173: \<^verbatim>\<open>beta * (1 + beta * abs(prev_layer_mem - THETA_REST)) ** (-2)\<close>
  (where the base is 0 torch yields infinity, which a real number cannot show).
\<close>

definition f_prime :: "real \<Rightarrow> tensor2 \<Rightarrow> tensor2" where
  "f_prime b m = map2d (\<lambda>u. b * (1 / (1 + b * \<bar>u - THETA_REST\<bar>) ^ 2)) m"

text \<open>Lines 168-185; the \<^verbatim>\<open>print\<close> of line 174 is left out.\<close>

definition first_term ::
  "('lif, 'tf, 'sma, 'vma) util \<Rightarrow> ('lif, 'tf, 'sma, 'vma) Layer list \<Rightarrow> nat
     \<Rightarrow> error + (tensor3 \<times> ('lif, 'tf, 'sma, 'vma) Layer list)" where
  "first_term U net i =
     (let self = net ! i; b = mls_beta (layer_settings self) in
      ebind (prev_layer_mem net i)
        (\<lambda>plm.
           let f_prime_u_i = unsqueeze1 (f_prime b plm) in
           ebind (index_neg (spike_rec U (spike_moving_average U (forward_lif self))) 1)
             (\<lambda>s.
                let most_recent_spike = unsqueeze2 s in
                ebind (ew3 (*) most_recent_spike f_prime_u_i)
                  (\<lambda>first_term_no_filter.
                     ebind (filter_apply3 U (epsilon_filter_second_term self) first_term_no_filter)
                       (\<lambda>(first_term_epsilon, eps1).
                          ebind (filter_apply3 U (alpha_filter_first_term self) first_term_epsilon)
                            (\<lambda>(first_term_alpha, alpha1).
                               let lr = mls_learning_rate (layer_settings self) in
                               Inr (map3d (\<lambda>x. lr * x * lr) first_term_alpha,
                                    net[i := self\<lparr> epsilon_filter_second_term := eps1,
                                                    alpha_filter_first_term := alpha1 \<rparr>])))))))"

text \<open>
  Lines 188-195: what the second term reads of the presynaptic side, namely the two
  retained spikes, the spike average and the variance average: of the layer's own data
  trackers for the first layer, of the previous layer's neuron otherwise.
\<close>

definition presynaptic_stats ::
  "('lif, 'tf, 'sma, 'vma) util \<Rightarrow> ('lif, 'tf, 'sma, 'vma) Layer list \<Rightarrow> nat
     \<Rightarrow> error + (tensor2 \<times> tensor2 \<times> tensor2 \<times> tensor2)" where
  "presynaptic_stats U net i =
     (let self = net ! i;
          sma = (case prev_layer self of
                   None \<Rightarrow> data_spike_moving_average self
                 | Some prv \<Rightarrow> spike_moving_average U (forward_lif (net ! prv)));
          vma = (case prev_layer self of
                   None \<Rightarrow> variance_moving_average self
                 | Some prv \<Rightarrow> lif_variance_moving_average U (forward_lif (net ! prv)))
      in ebind (index_neg (spike_rec U sma) 1)
           (\<lambda>prev_layer_most_recent_spike.
              ebind (index_neg (spike_rec U sma) 2)
                (\<lambda>prev_layer_two_spikes_ago.
                   ebind (sma_tracked_value U sma)
                     (\<lambda>prev_layer_spike_moving_average.
                        ebind (vma_tracked_value U vma)
                          (\<lambda>prev_layer_variance_moving_average.
                             Inr (prev_layer_most_recent_spike, prev_layer_two_spikes_ago,
                                  prev_layer_spike_moving_average,
                                  prev_layer_variance_moving_average))))))"

text \<open>
  Lines 197-201:
  \<^verbatim>\<open>-1 * (s1 - s2) + LAMBDA_HEBBIAN / (var + XI) * (s1 - avg)\<close>, operand by operand
  (a quotient by 0 is infinity in torch, which a real number cannot show).
\<close>

definition second_term_no_filter ::
  "tensor2 \<Rightarrow> tensor2 \<Rightarrow> tensor2 \<Rightarrow> tensor2 \<Rightarrow> error + tensor2" where
  "second_term_no_filter s1 s2 avg var =
     ebind (ew2 (-) s1 s2)
       (\<lambda>diff.
          let neg = map2d (\<lambda>x. - 1 * x) diff;
              gain = map2d (\<lambda>x. LAMBDA_HEBBIAN / x) (map2d (\<lambda>x. x + XI) var)
          in ebind (ew2 (-) s1 avg)
               (\<lambda>dev.
                  ebind (ew2 (*) gain dev)
                    (\<lambda>hebb. ew2 (+) neg hebb)))"

text \<open>Lines 187-205: the unfiltered term, the alpha filter, then \<^verbatim>\<open>unsqueeze(1).expand(-1, size, -1)\<close>.\<close>

definition second_term ::
  "('lif, 'tf, 'sma, 'vma) util \<Rightarrow> ('lif, 'tf, 'sma, 'vma) Layer list \<Rightarrow> nat
     \<Rightarrow> error + (tensor3 \<times> ('lif, 'tf, 'sma, 'vma) Layer list)" where
  "second_term U net i =
     (let self = net ! i in
      ebind (presynaptic_stats U net i)
        (\<lambda>(s1, s2, avg, var).
           ebind (second_term_no_filter s1 s2 avg var)
             (\<lambda>no_filter.
                ebind (filter_apply2 U (alpha_filter_second_term self) no_filter)
                  (\<lambda>(filtered, alpha1).
                     ebind (expand_dim1 (mls_size (layer_settings self)) (unsqueeze1 filtered))
                       (\<lambda>second_term_alpha.
                          Inr (second_term_alpha,
                               net[i := self\<lparr> alpha_filter_second_term := alpha1 \<rparr>]))))))"

text \<open>Lines 207-213.\<close>

definition third_term ::
  "('lif, 'tf, 'sma, 'vma) util \<Rightarrow> ('lif, 'tf, 'sma, 'vma) Layer list \<Rightarrow> nat \<Rightarrow> error + tensor3" where
  "third_term U net i =
     (let self = net ! i; lr = mls_learning_rate (layer_settings self) in
      ebind (index_neg (spike_rec U (spike_moving_average U (forward_lif self))) 1)
        (\<lambda>s.
           let scaled = map2d (\<lambda>x. lr * DELTA * x) s;
               prev_layer_size =
                 (case prev_layer self of
                    None \<Rightarrow> mls_data_size (layer_settings self)
                  | Some prv \<Rightarrow> mls_size (layer_settings (net ! prv)))
           in expand_dim2 prev_layer_size (unsqueeze2 scaled)))"

text \<open>
  Lines 215-218:
  \<^verbatim>\<open>dw_dt = first_term * second_term_alpha + third_term\<close>,
  \<^verbatim>\<open>dw_dt = dw_dt.sum(0) / dw_dt.shape[0]\<close>,
  \<^verbatim>\<open>self.forward_weights.weight += dw_dt\<close>.
\<close>

definition update_weights ::
  "('lif, 'tf, 'sma, 'vma) Layer \<Rightarrow> tensor3 \<Rightarrow> tensor3 \<Rightarrow> tensor3
     \<Rightarrow> error + ('lif, 'tf, 'sma, 'vma) Layer" where
  "update_weights self first second_term_alpha third =
     ebind (ew3 (*) first second_term_alpha)
       (\<lambda>prod.
          ebind (ew3 (+) prod third)
            (\<lambda>dw_dt.
               let dw = map2d (\<lambda>x. x / real (length dw_dt)) (sum0 dw_dt) in
               ebind (iadd2 (weight (forward_weights self)) dw)
                 (\<lambda>w1. Inr (self\<lparr> forward_weights := (forward_weights self)\<lparr> weight := w1 \<rparr> \<rparr>))))"

text \<open>
  Everything of \<open>train_forward\<close> before the update of the weights (lines 158-213): the
  three terms and the state of the layers at that point.
\<close>

definition plasticity_terms ::
  "('lif, 'tf, 'sma, 'vma) util \<Rightarrow> ('lif, 'tf, 'sma, 'vma) Layer list \<Rightarrow> nat \<Rightarrow> tensor2 option
     \<Rightarrow> error + ((tensor3 \<times> tensor3 \<times> tensor3) \<times> ('lif, 'tf, 'sma, 'vma) Layer list)" where
  "plasticity_terms U net i data =
     ebind (update_data_trackers U net i data)
       (\<lambda>net1.
          ebind (forward U net1 i data)
            (\<lambda>((spk, mem1), net2).
               ebind (first_term U net2 i)
                 (\<lambda>(first, net3).
                    ebind (second_term U net3 i)
                      (\<lambda>(second_term_alpha, net4).
                         ebind (third_term U net4 i)
                           (\<lambda>third. Inr ((first, second_term_alpha, third), net4))))))"

definition train_forward ::
  "('lif, 'tf, 'sma, 'vma) util \<Rightarrow> ('lif, 'tf, 'sma, 'vma) Layer list \<Rightarrow> nat \<Rightarrow> tensor2 option
     \<Rightarrow> error + ('lif, 'tf, 'sma, 'vma) Layer list" where
  "train_forward U net i data =
     ebind (plasticity_terms U net i data)
       (\<lambda>((first, second_term_alpha, third), net4).
          ebind (update_weights (net4 ! i) first second_term_alpha third)
            (\<lambda>self1. Inr (net4[i := self1])))"

section \<open>model.py: Net\<close>

text \<open>
  \<^verbatim>\<open>Net.__init__\<close> of model.py: the settings of every layer, the layers (\<open>w0 i\<close> and
  \<open>b0 i\<close> are the random draw of layer \<open>i\<close>'s weights), then the prev/next wiring.
\<close>

record ('lif, 'tf, 'sma, 'vma) model_Net =
  mn_settings :: model_Settings
  mn_layers :: "('lif, 'tf, 'sma, 'vma) Layer list"

definition network_layer_settings :: "model_Settings \<Rightarrow> model_LayerSettings list" where
  "network_layer_settings s =
     map (\<lambda>(i, sz).
            \<lparr> mls_prev_size = (if i = 0 then ms_data_size s else ms_layer_sizes s ! (i - 1)),
              mls_size = sz,
              mls_next_size = (if i + 1 < length (ms_layer_sizes s)
                               then ms_layer_sizes s ! (i + 1) else 0),
              mls_beta = ms_beta s,
              mls_learn_beta = ms_learn_beta s,
              mls_batch_size = ms_batch_size s,
              mls_learning_rate = ms_learning_rate s,
              mls_data_size = ms_data_size s \<rparr>)
       (enumerate 0 (ms_layer_sizes s))"

definition connect_layers ::
  "('lif, 'tf, 'sma, 'vma) Layer list \<Rightarrow> ('lif, 'tf, 'sma, 'vma) Layer list" where
  "connect_layers ls =
     map (\<lambda>(i, layer).
            let l1 = (if i > 0 then set_prev_layer layer (i - 1) else layer)
            in if i + 1 < length ls then set_next_layer l1 (i + 1) else l1)
       (enumerate 0 ls)"

definition model_Net_init ::
  "('lif, 'tf, 'sma, 'vma) util \<Rightarrow> model_Settings \<Rightarrow> (nat \<Rightarrow> nat \<Rightarrow> nat \<Rightarrow> real) \<Rightarrow> (nat \<Rightarrow> nat \<Rightarrow> real)
     \<Rightarrow> ('lif, 'tf, 'sma, 'vma) model_Net" where
  "model_Net_init U s w0 b0 =
     \<lparr> mn_settings = s,
       mn_layers =
         connect_layers
           (map (\<lambda>(i, layer_spec). Layer_init U layer_spec (w0 i) (b0 i))
              (enumerate 0 (network_layer_settings s))) \<rparr>"

text \<open>
  \<^verbatim>\<open>Net.process_data_online\<close> of model.py (lines 252-269). The layer loop calls
  \<open>train_forward\<close> on every layer in order, with the data of the timestep for the first
  layer and with \<open>None\<close> for the others; it calls nothing else on a layer.
\<close>

fun model_layers_loop ::
  "('lif, 'tf, 'sma, 'vma) util \<Rightarrow> tensor2 \<Rightarrow> nat list \<Rightarrow> ('lif, 'tf, 'sma, 'vma) Layer list
     \<Rightarrow> error + ('lif, 'tf, 'sma, 'vma) Layer list" where
  "model_layers_loop U data [] net = Inr net"
| "model_layers_loop U data (i # rest) net =
     ebind (if i = 0 then train_forward U net i (Some data) else train_forward U net i None)
       (\<lambda>net1. model_layers_loop U data rest net1)"

fun model_timesteps_loop ::
  "('lif, 'tf, 'sma, 'vma) util \<Rightarrow> tensor3 \<Rightarrow> nat list \<Rightarrow> ('lif, 'tf, 'sma, 'vma) Layer list
     \<Rightarrow> error + ('lif, 'tf, 'sma, 'vma) Layer list" where
  "model_timesteps_loop U spike_trains [] net = Inr net"
| "model_timesteps_loop U spike_trains (timestep # later) net =
     ebind (model_layers_loop U (spike_trains ! timestep) [0..<length net] net)
       (\<lambda>net1. model_timesteps_loop U spike_trains later net1)"

text \<open>
  \<^verbatim>\<open>spikegen.rate(batch, time_var_input=True)\<close> draws a random spike train of the
  batch's shape; \<open>rate epoch i\<close> is the draw made for batch \<open>i\<close> of epoch \<open>epoch\<close>.
\<close>

fun model_batches_loop ::
  "('lif, 'tf, 'sma, 'vma) util \<Rightarrow> (nat \<Rightarrow> tensor3 \<Rightarrow> tensor3) \<Rightarrow> (nat \<times> tensor3) list
     \<Rightarrow> ('lif, 'tf, 'sma, 'vma) Layer list \<Rightarrow> error + ('lif, 'tf, 'sma, 'vma) Layer list" where
  "model_batches_loop U rate_of [] net = Inr net"
| "model_batches_loop U rate_of ((i, batch0) # rest) net =
     (let batch = permute_1_0_2 batch0;
          spike_trains = rate_of i batch
      in ebind (model_timesteps_loop U spike_trains [0..<length spike_trains] net)
           (\<lambda>net1. model_batches_loop U rate_of rest net1))"

fun model_epochs_loop ::
  "('lif, 'tf, 'sma, 'vma) util \<Rightarrow> (nat \<Rightarrow> nat \<Rightarrow> tensor3 \<Rightarrow> tensor3) \<Rightarrow> tensor3 list \<Rightarrow> nat list
     \<Rightarrow> ('lif, 'tf, 'sma, 'vma) Layer list \<Rightarrow> error + ('lif, 'tf, 'sma, 'vma) Layer list" where
  "model_epochs_loop U rate train_loader [] net = Inr net"
| "model_epochs_loop U rate train_loader (epoch # later) net =
     ebind (model_batches_loop U (rate epoch) (enumerate 0 train_loader) net)
       (\<lambda>net1. model_epochs_loop U rate train_loader later net1)"

definition model_process_data_online ::
  "('lif, 'tf, 'sma, 'vma) util \<Rightarrow> (nat \<Rightarrow> nat \<Rightarrow> tensor3 \<Rightarrow> tensor3)
     \<Rightarrow> ('lif, 'tf, 'sma, 'vma) model_Net \<Rightarrow> tensor3 list
     \<Rightarrow> error + ('lif, 'tf, 'sma, 'vma) model_Net" where
  "model_process_data_online U rate net train_loader =
     ebind (model_epochs_loop U rate train_loader [0..<nat (ms_epochs (mn_settings net))]
              (mn_layers net))
       (\<lambda>layers1. Inr (net\<lparr> mn_layers := layers1 \<rparr>))"

subsection \<open>A plain instance of the collaborators\<close>

text \<open>
  To run a layer on concrete numbers the parameters need values. This instance is as
  plain as can be: the neuron spikes where the current is above 1 and keeps the current
  as its membrane, it and the spike tracker retain the last two spikes, a filter returns
  its input, the tracked spike average is the newest retained spike and the tracked
  variance is zero.
\<close>

definition plain_util :: "(tensor2 list, unit, tensor2 list, tensor2) util" where
  "plain_util =
     \<lparr> MovingAverageLIF_init = (\<lambda>b n bt lb. [zeros2 b n, zeros2 b n]),
       init_leaky = (\<lambda>lif. []),
       lif_call = (\<lambda>lif current m.
          let spk = map2d (\<lambda>x. if x > 1 then 1 else 0) current
          in Inr ((spk, current), deque_append 2 lif spk)),
       spike_moving_average = (\<lambda>lif. lif),
       lif_variance_moving_average = (\<lambda>lif. map2d (\<lambda>x. 0) (last lif)),
       TemporalFilter_init = (\<lambda>rise fall. ()),
       filter_apply2 = (\<lambda>tf x. Inr (x, tf)),
       filter_apply3 = (\<lambda>tf x. Inr (x, tf)),
       SpikeMovingAverage_init = (\<lambda>b n. [zeros2 b n, zeros2 b n]),
       sma_apply = (\<lambda>sma x. Inr (x, deque_append 2 sma x)),
       spike_rec = (\<lambda>sma. sma),
       sma_tracked_value = (\<lambda>sma. index_neg sma 1),
       VarianceMovingAverage_init = [],
       vma_apply = (\<lambda>vma x avg. let z = map2d (\<lambda>x. 0) x in Inr (z, z)),
       vma_tracked_value = (\<lambda>vma. Inr vma) \<rparr>"

text \<open>
  The settings of the \<^verbatim>\<open>__main__\<close> block of model.py (one sample per batch, two inputs)
  for a given list of layer sizes, and the layers of the network built from them with
  the plain collaborators, every weight drawn as 2 and every bias as 0.
\<close>

definition plain_settings :: "nat list \<Rightarrow> model_Settings" where
  "plain_settings sizes =
     \<lparr> ms_layer_sizes = sizes, ms_beta = BETA, ms_learn_beta = False, ms_num_steps = 25,
       ms_data_size = 2, ms_batch_size = 1, ms_learning_rate = 1 / 100, ms_epochs = 10 \<rparr>"

definition plain_net :: "nat list \<Rightarrow> (tensor2 list, unit, tensor2 list, tensor2) Layer list" where
  "plain_net sizes =
     mn_layers (model_Net_init plain_util (plain_settings sizes) (\<lambda>i j k. 2) (\<lambda>i j. 0))"

subsection \<open>Shapes and the retained membranes\<close>

text \<open>A tensor has the shape (r, c), respectively (b, r, c).\<close>

definition has_shape2 :: "nat \<Rightarrow> nat \<Rightarrow> tensor2 \<Rightarrow> bool" where
  "has_shape2 r c t = (length t = r \<and> list_all (\<lambda>row. length row = c) t)"

definition has_shape3 :: "nat \<Rightarrow> nat \<Rightarrow> nat \<Rightarrow> tensor3 \<Rightarrow> bool" where
  "has_shape3 b r c t = (length t = b \<and> list_all (has_shape2 r c) t)"

text \<open>Every layer of the network retains exactly two membranes.\<close>

definition two_retained :: "('lif, 'tf, 'sma, 'vma) Layer list \<Rightarrow> bool" where
  "two_retained net = list_all (\<lambda>L. length (mem_rec L) = 2) net"

text \<open>Every layer of the network retains at most \<open>MAX_RETAINED_MEMS\<close> membranes.\<close>

definition mems_bounded :: "('lif, 'tf, 'sma, 'vma) Layer list \<Rightarrow> bool" where
  "mems_bounded net = list_all (\<lambda>L. length (mem_rec L) \<le> MAX_RETAINED_MEMS) net"

section \<open>Properties of network.py and settings.py\<close>

lemma ebind_Inr_iff: "ebind m f = Inr y \<longleftrightarrow> (\<exists>x. m = Inr x \<and> f x = Inr y)"
  by (cases m) auto

lemma layers_loop_append:
  "layers_loop ops data (xs @ ys) st = ebind (layers_loop ops data xs st) (layers_loop ops data ys)"
proof (induction xs arbitrary: st)
  case Nil
  show ?case by simp
next
  case (Cons p xs)
  obtain i layer where p: "p = (i, layer)" by (cases p)
  let ?fw = "if i = 0 then layer_forward ops layer (Some data) st
             else layer_forward ops layer None st"
  show ?case
  proof (cases ?fw)
    case (Inl e)
    then show ?thesis using p by simp
  next
    case fw: (Inr r)
    obtain spk st1 where r: "r = (spk, st1)" by (cases r)
    show ?thesis
    proof (cases "layer_train_synapses ops layer spk data st1")
      case (Inl e)
      then show ?thesis using p fw r by simp
    next
      case (Inr st2)
      then show ?thesis using p fw r Cons.IH by simp
    qed
  qed
qed

text \<open>
  The calls one timestep makes on \<open>n\<close> recorded layers when \<open>k\<close> calls were logged
  before it.
\<close>

lemma length_step_calls:
  "length (concat (map (\<lambda>i. [EvForward i (if i = 0 then Some data else None),
                              EvTrainSynapses i (k + 2 * i) data]) [0..<n])) = 2 * n"
  by (induction n) simp_all

lemma layers_loop_trace:
  "layers_loop trace_ops data (enumerate 0 [0..<n]) calls
     = Inr (calls @ concat (map (\<lambda>i. [EvForward i (if i = 0 then Some data else None),
                                       EvTrainSynapses i (length calls + 2 * i) data]) [0..<n]))"
proof (induction n)
  case 0
  show ?case by simp
next
  case (Suc n)
  have e: "enumerate 0 [0..<Suc n] = enumerate 0 [0..<n] @ [(n, n)]"
    by (simp add: enumerate_append_eq)
  show ?case
    unfolding e layers_loop_append Suc.IH
    by (simp add: trace_ops_def length_step_calls)
qed

text \<open>
  C2, as the code has it: for every number \<open>n\<close> of layers, one timestep visits the
  layers once, in index order, and for each layer calls \<open>forward\<close> (with the input for
  layer 0, without it for the others) and at once \<open>train_synapses\<close> of that same layer,
  with the spike that \<open>forward\<close> call returned and the input of the step. The plasticity
  update of layer \<open>i\<close> therefore runs before the forward pass of layer \<open>i + 1\<close>.
\<close>

theorem single_timestep_interleaves:
  "process_data_single_timestep trace_ops (trace_net s n) data []
     = Inr (concat (map (\<lambda>i. [EvForward i (if i = 0 then Some data else None),
                              EvTrainSynapses i (2 * i) data]) [0..<n]))"
  using layers_loop_trace [of data n "[]"]
  by (simp add: process_data_single_timestep_def trace_net_def to_device_def)

text \<open>
  C2, as the claim states it, fails on a network of two layers: the claim has both
  forward passes first, but the update of layer 0 is called before the forward pass of
  layer 1.
\<close>

theorem single_timestep_two_layers_counterexample:
  "process_data_single_timestep trace_ops
       \<lparr> settings = \<lparr> layer_sizes = [1, 1], data_size = 1, batch_size = 1, learning_rate = 1 / 100,
                      epochs = 1, encode_spike_trains = False, dt = 1, percentage_inhibitory = 50,
                      exc_to_inhib_conn_c = 1, exc_to_inhib_conn_sigma_squared = 1,
                      layer_sparsity = 0, device = ''cpu'' \<rparr>,
         layers = [0, 1] \<rparr> [[1]] []
     = Inr [EvForward 0 (Some [[1]]), EvTrainSynapses 0 0 [[1]],
            EvForward 1 None, EvTrainSynapses 1 2 [[1]]]
   \<and> \<not> forwards_first [EvForward 0 (Some [[1]]), EvTrainSynapses 0 0 [[1]],
                         EvForward 1 None, EvTrainSynapses 1 2 [[1]]]"
  by (simp add: process_data_single_timestep_def to_device_def trace_ops_def enumerate_eq_zip
        upt_rec forwards_first_def Let_def)

text \<open>
  C4, as the code has it: the constructors of \<open>Settings\<close> and \<open>LayerSettings\<close> return
  normally for every argument and store every argument as it is, in the attribute of
  its name (all twelve of \<open>Settings\<close>, all thirteen of \<open>LayerSettings\<close>); nothing is
  validated (and settings.py has no tau parameter at all).
\<close>

theorem settings_constructors_accept_everything:
  "(\<exists>s. Settings_init sizes dsz bsz lr ep enc dt0 pinh c sig sp dev = Inr s
        \<and> layer_sizes s = sizes
        \<and> data_size s = dsz
        \<and> batch_size s = bsz
        \<and> learning_rate s = lr
        \<and> epochs s = ep
        \<and> encode_spike_trains s = enc
        \<and> dt s = dt0
        \<and> percentage_inhibitory s = pinh
        \<and> exc_to_inhib_conn_c s = c
        \<and> exc_to_inhib_conn_sigma_squared s = sig
        \<and> layer_sparsity s = sp
        \<and> device s = dev)
   \<and> (\<exists>l. LayerSettings_init lid prv sz nxt bsz lr dsz dt0 pinh c sig sp dev = Inr l
        \<and> ls_layer_id l = lid
        \<and> ls_prev_size l = prv
        \<and> ls_size l = sz
        \<and> ls_next_size l = nxt
        \<and> ls_batch_size l = bsz
        \<and> ls_learning_rate l = lr
        \<and> ls_data_size l = dsz
        \<and> ls_dt l = dt0
        \<and> ls_percentage_inhibitory l = pinh
        \<and> ls_exc_to_inhib_conn_c l = c
        \<and> ls_exc_to_inhib_conn_sigma_squared l = sig
        \<and> ls_layer_sparsity l = sp
        \<and> ls_device l = dev)"
  by (simp add: Settings_init_def LayerSettings_init_def)

text \<open>
  C4, as the claim states it, fails: with 150 percent inhibitory units and a learning
  rate of -1 both constructors return an object that holds these values.
\<close>

theorem settings_invalid_values_counterexample:
  "Settings_init [2] 2 5 (- 1) 10 False 1 150 1 1 0 ''cpu''
     = Inr \<lparr> layer_sizes = [2], data_size = 2, batch_size = 5, learning_rate = - 1,
             epochs = 10, encode_spike_trains = False, dt = 1, percentage_inhibitory = 150,
             exc_to_inhib_conn_c = 1, exc_to_inhib_conn_sigma_squared = 1,
             layer_sparsity = 0, device = ''cpu'' \<rparr>
   \<and> LayerSettings_init 0 2 2 0 5 (- 1) 2 1 150 1 1 0 ''cpu''
     = Inr \<lparr> ls_layer_id = 0, ls_prev_size = 2, ls_size = 2, ls_next_size = 0,
             ls_batch_size = 5, ls_learning_rate = - 1, ls_data_size = 2, ls_dt = 1,
             ls_percentage_inhibitory = 150, ls_exc_to_inhib_conn_c = 1,
             ls_exc_to_inhib_conn_sigma_squared = 1, ls_layer_sparsity = 0,
             ls_device = ''cpu'' \<rparr>"
  by (simp add: Settings_init_def LayerSettings_init_def)

text \<open>
  C3, on the code: with at least one epoch and a loader that yields at least one batch,
  \<open>process_data_online\<close> does what processing the first batch does and nothing more.
  The \<^verbatim>\<open>return\<close> of line 108 ends it there: the other batches and the other epochs
  have no effect. The claim (every timestep of every one of the E x B pairs) does not
  hold of the code.
\<close>

theorem process_data_online_stops_after_first_batch:
  assumes "0 < epochs (settings net)"
  shows "process_data_online ops net (batch # rest) st = process_batch ops net batch st"
proof -
  from assms obtain k where k: "nat (epochs (settings net)) = Suc k"
    by (cases "nat (epochs (settings net))") auto
  show ?thesis
    unfolding process_data_online_def k
    by (cases "process_batch ops net batch st") simp_all
qed

text \<open>
  Two epochs over two batches of one timestep each: one timestep is processed, not four.
\<close>

theorem process_data_online_stops_after_first_batch_witness:
  "process_data_online trace_ops
       \<lparr> settings = \<lparr> layer_sizes = [1], data_size = 1, batch_size = 1, learning_rate = 1 / 100,
                      epochs = 2, encode_spike_trains = False, dt = 1, percentage_inhibitory = 50,
                      exc_to_inhib_conn_c = 1, exc_to_inhib_conn_sigma_squared = 1,
                      layer_sparsity = 0, device = ''cpu'' \<rparr>,
         layers = [0] \<rparr> [[[[1]]], [[[2]]]] []
     = Inr [EvForward 0 (Some [[1]]), EvTrainSynapses 0 0 [[1]]]"
proof -
  have "process_data_online trace_ops
       \<lparr> settings = \<lparr> layer_sizes = [1], data_size = 1, batch_size = 1, learning_rate = 1 / 100,
                      epochs = 2, encode_spike_trains = False, dt = 1, percentage_inhibitory = 50,
                      exc_to_inhib_conn_c = 1, exc_to_inhib_conn_sigma_squared = 1,
                      layer_sparsity = 0, device = ''cpu'' \<rparr>,
         layers = [0] \<rparr> [[[[1]]], [[[2]]]] []
     = process_batch trace_ops
       \<lparr> settings = \<lparr> layer_sizes = [1], data_size = 1, batch_size = 1, learning_rate = 1 / 100,
                      epochs = 2, encode_spike_trains = False, dt = 1, percentage_inhibitory = 50,
                      exc_to_inhib_conn_c = 1, exc_to_inhib_conn_sigma_squared = 1,
                      layer_sparsity = 0, device = ''cpu'' \<rparr>,
         layers = [0] \<rparr> [[[1]]] []"
    by (rule process_data_online_stops_after_first_batch) simp
  then show ?thesis
    by (simp add: process_batch_def permute_1_0_2_def to_device_def trace_ops_def
          enumerate_eq_zip Let_def)
qed

lemma forward_inputs_append:
  "forward_inputs (xs @ ys) = forward_inputs xs @ forward_inputs ys"
  by (induction xs rule: forward_inputs.induct) simp_all

lemma forward_inputs_step:
  "0 < n \<Longrightarrow>
   forward_inputs (concat (map (\<lambda>i. [EvForward i (if i = 0 then Some data else None),
                                      EvTrainSynapses i (k + 2 * i) data]) [0..<n])) = [data]"
proof (induction n)
  case 0
  then show ?case by simp
next
  case (Suc n)
  show ?case
  proof (cases "n = 0")
    case True
    then show ?thesis by simp
  next
    case False
    then show ?thesis using Suc.IH by (simp add: forward_inputs_append)
  qed
qed

lemma timesteps_loop_trace:
  assumes "0 < n"
  shows "\<exists>tr. timesteps_loop trace_ops (trace_net s n) batch ts calls = Inr tr
            \<and> forward_inputs tr = forward_inputs calls @ map (\<lambda>t. batch ! t) ts"
proof (induction ts arbitrary: calls)
  case Nil
  show ?case by simp
next
  case (Cons t ts)
  let ?c1 = "calls @ concat (map (\<lambda>i. [EvForward i (if i = 0 then Some (batch ! t) else None),
                 EvTrainSynapses i (length calls + 2 * i) (batch ! t)]) [0..<n])"
  have step: "layers_loop trace_ops (batch ! t) (enumerate 0 (layers (trace_net s n))) calls = Inr ?c1"
    using layers_loop_trace [of "batch ! t" n calls] by (simp add: trace_net_def)
  from Cons.IH [of ?c1] obtain tr where
    tr: "timesteps_loop trace_ops (trace_net s n) batch ts ?c1 = Inr tr"
    and fi: "forward_inputs tr = forward_inputs ?c1 @ map (\<lambda>t. batch ! t) ts"
    by blast
  have "forward_inputs ?c1 = forward_inputs calls @ [batch ! t]"
    using assms by (simp add: forward_inputs_append forward_inputs_step)
  with tr fi step show ?case by simp
qed

text \<open>
  C5, as the code has it: the tensors the first layer is handed while a batch is
  processed are the timesteps of the permuted batch, unchanged when
  \<open>encode_spike_trains\<close> is off and thresholded at 0.5 by the network itself when it is
  on; \<open>process_data_single_timestep\<close> hands its input on unchanged.
\<close>

theorem network_input_is_thresholded_when_flag_set:
  assumes "0 < n"
  shows "(\<exists>tr. process_batch trace_ops (trace_net s n) batch [] = Inr tr
            \<and> forward_inputs tr =
                (if encode_spike_trains s then threshold_half (permute_1_0_2 batch)
                 else permute_1_0_2 batch))
       \<and> (\<exists>tr. process_data_single_timestep trace_ops (trace_net s n) data [] = Inr tr
            \<and> forward_inputs tr = [data])"
proof -
  let ?b = "if encode_spike_trains s then threshold_half (permute_1_0_2 batch)
            else permute_1_0_2 batch"
  from timesteps_loop_trace [OF assms, of s ?b "[0..<length ?b]" "[]"] obtain tr where
    tr: "timesteps_loop trace_ops (trace_net s n) ?b [0..<length ?b] [] = Inr tr"
    and fi: "forward_inputs tr = forward_inputs [] @ map (\<lambda>t. ?b ! t) [0..<length ?b]"
    by blast
  have "map (\<lambda>t. ?b ! t) [0..<length ?b] = ?b" by (rule map_nth)
  with fi have "forward_inputs tr = ?b" by simp
  moreover have "process_batch trace_ops (trace_net s n) batch [] = Inr tr"
    using tr by (simp add: process_batch_def to_device_def Let_def trace_net_def)
  ultimately have first: "\<exists>tr. process_batch trace_ops (trace_net s n) batch [] = Inr tr
            \<and> forward_inputs tr = ?b" by blast
  have "forward_inputs (concat (map (\<lambda>i. [EvForward i (if i = 0 then Some data else None),
                 EvTrainSynapses i (0 + 2 * i) data]) [0..<n])) = [data]"
    using assms by (rule forward_inputs_step)
  then have second: "\<exists>tr. process_data_single_timestep trace_ops (trace_net s n) data [] = Inr tr
            \<and> forward_inputs tr = [data]"
    using layers_loop_trace [of data n "[]"]
    by (simp add: process_data_single_timestep_def trace_net_def to_device_def)
  from first second show ?thesis by blast
qed

theorem network_input_is_thresholded_when_flag_set_witness:
  "(0::nat) < 1
   \<and> (\<exists>tr. process_batch trace_ops (trace_net
          \<lparr> layer_sizes = [1], data_size = 1, batch_size = 1, learning_rate = 1 / 100,
            epochs = 1, encode_spike_trains = False, dt = 1, percentage_inhibitory = 50,
            exc_to_inhib_conn_c = 1, exc_to_inhib_conn_sigma_squared = 1,
            layer_sparsity = 0, device = ''cpu'' \<rparr> 1) [[[7 / 10]]] [] = Inr tr
         \<and> forward_inputs tr = [[[7 / 10]]])"
proof -
  have "transpose [[[7 / 10 :: real]]] = [[[7 / 10]]]" by code_simp
  then show ?thesis
    using network_input_is_thresholded_when_flag_set [of 1
          "\<lparr> layer_sizes = [1], data_size = 1, batch_size = 1, learning_rate = 1 / 100,
            epochs = 1, encode_spike_trains = False, dt = 1, percentage_inhibitory = 50,
            exc_to_inhib_conn_c = 1, exc_to_inhib_conn_sigma_squared = 1,
            layer_sparsity = 0, device = ''cpu'' \<rparr>" "[[[7 / 10]]]" "[]"]
    by (simp add: permute_1_0_2_def)
qed

text \<open>
  C5, as the claim states it, fails: with \<open>encode_spike_trains\<close> set, a batch whose one
  entry is 0.7 reaches the layer as 1.0; the threshold is applied inside
  \<open>process_data_online\<close>.
\<close>

theorem network_thresholds_input_counterexample:
  "process_data_online trace_ops
       \<lparr> settings = \<lparr> layer_sizes = [1], data_size = 1, batch_size = 1, learning_rate = 1 / 100,
                      epochs = 1, encode_spike_trains = True, dt = 1, percentage_inhibitory = 50,
                      exc_to_inhib_conn_c = 1, exc_to_inhib_conn_sigma_squared = 1,
                      layer_sparsity = 0, device = ''cpu'' \<rparr>,
         layers = [0] \<rparr> [[[[7 / 10]]]] []
     = Inr [EvForward 0 (Some [[1]]), EvTrainSynapses 0 0 [[1]]]
   \<and> [[1 :: real]] \<noteq> [[7 / 10]]"
  by (simp add: process_data_online_def process_batch_def permute_1_0_2_def to_device_def
        trace_ops_def enumerate_eq_zip Let_def threshold_half_def)

section \<open>Properties of model.py\<close>

subsection \<open>Tensor operations on operands of one shape\<close>

lemma collect_map_Inr:
  "(\<And>x. x \<in> set xs \<Longrightarrow> g x = Inr (h x)) \<Longrightarrow> collect (map g xs) = Inr (map h xs)"
  by (induction xs) auto

lemma broadcast_same_length:
  assumes "length xs = length ys"
      and "\<And>x y. (x, y) \<in> set (zip xs ys) \<Longrightarrow> f x y = Inr (h x y)"
  shows "broadcast f xs ys = Inr (map2 h xs ys)"
proof -
  have "collect (map (\<lambda>(x, y). f x y) (zip xs ys)) = Inr (map (\<lambda>(x, y). h x y) (zip xs ys))"
    by (rule collect_map_Inr) (use assms(2) in auto)
  then show ?thesis using assms(1) by (simp add: broadcast_def)
qed

lemma broadcast_to_same_length:
  assumes "length xs = length ys"
      and "\<And>x y. (x, y) \<in> set (zip xs ys) \<Longrightarrow> f x y = Inr (h x y)"
  shows "broadcast_to f xs ys = Inr (map2 h xs ys)"
proof -
  have "collect (map (\<lambda>(x, y). f x y) (zip xs ys)) = Inr (map (\<lambda>(x, y). h x y) (zip xs ys))"
    by (rule collect_map_Inr) (use assms(2) in auto)
  then show ?thesis using assms(1) by (simp add: broadcast_to_def)
qed

lemma has_shape2_nth: "has_shape2 r c t \<Longrightarrow> j < r \<Longrightarrow> length (t ! j) = c"
  by (auto simp: has_shape2_def list_all_length)

lemma has_shape2_mem: "has_shape2 r c t \<Longrightarrow> row \<in> set t \<Longrightarrow> length row = c"
  by (auto simp: has_shape2_def list_all_iff)

lemma has_shape3_mem: "has_shape3 b r c t \<Longrightarrow> m \<in> set t \<Longrightarrow> has_shape2 r c m"
  by (auto simp: has_shape3_def list_all_iff)

lemma has_shape3_nth: "has_shape3 b r c t \<Longrightarrow> x < b \<Longrightarrow> has_shape2 r c (t ! x)"
  by (auto simp: has_shape3_def list_all_length)

lemma ew1_same_shape:
  "length a = length b \<Longrightarrow> broadcast (pointwise g) a b = Inr (map2 g a b)"
  by (rule broadcast_same_length) (simp_all add: pointwise_def)

lemma ew2_same_shape:
  assumes "has_shape2 r c a" "has_shape2 r c b"
  shows "ew2 g a b = Inr (map2 (map2 g) a b)"
  unfolding ew2_def
proof (rule broadcast_same_length)
  show "length a = length b" using assms by (simp add: has_shape2_def)
next
  fix x y assume "(x, y) \<in> set (zip a b)"
  then have "x \<in> set a" "y \<in> set b" by (auto dest: set_zip_leftD set_zip_rightD)
  then have "length x = length y" using assms by (simp add: has_shape2_mem)
  then show "broadcast (pointwise g) x y = Inr (map2 g x y)" by (rule ew1_same_shape)
qed

lemma ew3_same_shape:
  assumes "has_shape3 n r c a" "has_shape3 n r c b"
  shows "ew3 g a b = Inr (map2 (map2 (map2 g)) a b)"
  unfolding ew3_def
proof (rule broadcast_same_length)
  show "length a = length b" using assms by (simp add: has_shape3_def)
next
  fix x y assume "(x, y) \<in> set (zip a b)"
  then have "x \<in> set a" "y \<in> set b" by (auto dest: set_zip_leftD set_zip_rightD)
  then have "has_shape2 r c x" "has_shape2 r c y" using assms by (auto dest: has_shape3_mem)
  then show "broadcast (broadcast (pointwise g)) x y = Inr (map2 (map2 g) x y)"
    using ew2_same_shape [of r c x y g] by (simp add: ew2_def)
qed

lemma iadd2_same_shape:
  assumes "has_shape2 r c a" "has_shape2 r c b"
  shows "iadd2 a b = Inr (map2 (map2 (+)) a b)"
  unfolding iadd2_def
proof (rule broadcast_to_same_length)
  show "length a = length b" using assms by (simp add: has_shape2_def)
next
  fix x y assume "(x, y) \<in> set (zip a b)"
  then have "x \<in> set a" "y \<in> set b" by (auto dest: set_zip_leftD set_zip_rightD)
  then have "length x = length y" using assms by (simp add: has_shape2_mem)
  then show "broadcast_to (pointwise (+)) x y = Inr (map2 (+) x y)"
    by (intro broadcast_to_same_length) (simp_all add: pointwise_def)
qed

lemma map2_shape2:
  "has_shape2 r c a \<Longrightarrow> has_shape2 r c b \<Longrightarrow> has_shape2 r c (map2 (map2 g) a b)"
  by (auto simp: has_shape2_def list_all_length)

lemma map2_shape3:
  "has_shape3 n r c a \<Longrightarrow> has_shape3 n r c b \<Longrightarrow> has_shape3 n r c (map2 (map2 (map2 g)) a b)"
  by (auto simp: has_shape3_def list_all_length intro: map2_shape2)

lemma map2_nth2:
  "has_shape2 r c a \<Longrightarrow> has_shape2 r c b \<Longrightarrow> j < r \<Longrightarrow> k < c
     \<Longrightarrow> map2 (map2 g) a b ! j ! k = g (a ! j ! k) (b ! j ! k)"
  by (auto simp: has_shape2_def list_all_length)

lemma map2_nth3:
  "has_shape3 n r c a \<Longrightarrow> has_shape3 n r c b \<Longrightarrow> x < n \<Longrightarrow> j < r \<Longrightarrow> k < c
     \<Longrightarrow> map2 (map2 (map2 g)) a b ! x ! j ! k = g (a ! x ! j ! k) (b ! x ! j ! k)"
  by (auto simp: has_shape3_def has_shape2_def list_all_length)

lemma map2d_shape2: "has_shape2 r c a \<Longrightarrow> has_shape2 r c (map2d g a)"
  by (auto simp: has_shape2_def map2d_def list_all_length)

lemma map2d_nth: "has_shape2 r c a \<Longrightarrow> j < r \<Longrightarrow> k < c \<Longrightarrow> map2d g a ! j ! k = g (a ! j ! k)"
  by (auto simp: has_shape2_def map2d_def list_all_length)

lemma sum0_shape:
  assumes "has_shape3 n r c t" "0 < n"
  shows "has_shape2 r c (sum0 t)"
proof -
  obtain m ms where t: "t = m # ms" using assms by (cases t) (auto simp: has_shape3_def)
  then have m: "has_shape2 r c m" using assms(1) by (simp add: has_shape3_def)
  show ?thesis unfolding t sum0_def using m
    by (auto simp: has_shape2_def list_all_length)
qed

lemma sum0_nth:
  assumes "has_shape3 n r c t" "0 < n" "j < r" "k < c"
  shows "sum0 t ! j ! k = (\<Sum>x<n. t ! x ! j ! k)"
proof -
  obtain m ms where t: "t = m # ms" using assms by (cases t) (auto simp: has_shape3_def)
  then have m: "has_shape2 r c m" using assms(1) by (simp add: has_shape3_def)
  have len: "length t = n" using assms(1) by (simp add: has_shape3_def)
  have "sum0 t ! j ! k = sum_list (map (\<lambda>x. x ! j ! k) t)"
    using m assms(3,4) unfolding sum0_def t by (simp add: has_shape2_def list_all_length)
  also have "\<dots> = (\<Sum>x<length t. t ! x ! j ! k)"
    by (simp add: sum_list_sum_nth atLeast0LessThan)
  finally show ?thesis using len by simp
qed



subsection \<open>What each part of a training step changes\<close>

lemma forward_Inr:
  assumes "forward U net i data = Inr ((spk, m), net')"
  shows "\<exists>d current lif1.
           data = Some d \<and>
           Linear_call (forward_weights (net ! i)) d = Inr current \<and>
           lif_call U (forward_lif (net ! i)) current (mem (net ! i)) = Inr ((spk, m), lif1) \<and>
           net' = net[i := (net ! i)\<lparr> forward_lif := lif1, mem := m,
                      mem_rec := deque_append MAX_RETAINED_MEMS (mem_rec (net ! i)) m \<rparr>]"
  using assms unfolding forward_def Let_def
  by (auto simp: ebind_Inr_iff split: option.splits)

lemma forward_None: "forward U net i None =
    Inl (case prev_layer (net ! i) of None \<Rightarrow> AssertionError | Some prv \<Rightarrow> AttributeError)"
  unfolding forward_def Let_def by (simp split: option.splits)

lemma update_data_trackers_Inr:
  assumes "update_data_trackers U net i data = Inr net1"
  shows "\<exists>sma1 vma1. net1 = net \<or> net1 = net[i := (net ! i)\<lparr> data_spike_moving_average := sma1,
                                   variance_moving_average := vma1 \<rparr>]"
  using assms unfolding update_data_trackers_def Let_def
  by (auto simp: ebind_Inr_iff split: option.splits)

lemma first_term_Inr:
  assumes "first_term U net i = Inr (t, net1)"
  shows "\<exists>eps1 alpha1. net1 = net[i := (net ! i)\<lparr> epsilon_filter_second_term := eps1,
                                   alpha_filter_first_term := alpha1 \<rparr>]"
  using assms unfolding first_term_def Let_def
  by (auto simp: ebind_Inr_iff split: option.splits)

lemma second_term_Inr:
  assumes "second_term U net i = Inr (t, net1)"
  shows "\<exists>alpha1. net1 = net[i := (net ! i)\<lparr> alpha_filter_second_term := alpha1 \<rparr>]"
  using assms unfolding second_term_def Let_def
  by (auto simp: ebind_Inr_iff split: option.splits)

lemma plasticity_terms_Inr:
  assumes "plasticity_terms U net i data = Inr (ts, net4)" and "i < length net"
  shows "\<exists>d spk m lif1 sma1 vma1 eps1 alpha1 alpha2.
           data = Some d \<and>
           net4 = net[i := (net ! i)\<lparr> data_spike_moving_average := sma1, variance_moving_average := vma1,
                      forward_lif := lif1, mem := m,
                      mem_rec := deque_append MAX_RETAINED_MEMS (mem_rec (net ! i)) m,
                      epsilon_filter_second_term := eps1, alpha_filter_first_term := alpha1,
                      alpha_filter_second_term := alpha2 \<rparr>]"
proof -
  from assms(1) obtain net1 spk m net2 t1 net3 t2 where
    a: "update_data_trackers U net i data = Inr net1"
    and b: "forward U net1 i data = Inr ((spk, m), net2)"
    and c: "first_term U net2 i = Inr (t1, net3)"
    and d: "second_term U net3 i = Inr (t2, net4)"
    unfolding plasticity_terms_def by (auto simp: ebind_Inr_iff)
  from forward_Inr [OF b] obtain d0 where d0: "data = Some d0" by blast
  from a d0 obtain sma1 vma1 where
    n1: "net1 = net[i := (net ! i)\<lparr> data_spike_moving_average := sma1, variance_moving_average := vma1 \<rparr>]"
    unfolding update_data_trackers_def Let_def by (auto simp: ebind_Inr_iff)
  from forward_Inr [OF b] obtain lif1 where
    n2: "net2 = net1[i := (net1 ! i)\<lparr> forward_lif := lif1, mem := m,
                      mem_rec := deque_append MAX_RETAINED_MEMS (mem_rec (net1 ! i)) m \<rparr>]"
    by blast
  from first_term_Inr [OF c] obtain eps1 alpha1 where
    n3: "net3 = net2[i := (net2 ! i)\<lparr> epsilon_filter_second_term := eps1, alpha_filter_first_term := alpha1 \<rparr>]"
    by blast
  from second_term_Inr [OF d] obtain alpha2 where
    n4: "net4 = net3[i := (net3 ! i)\<lparr> alpha_filter_second_term := alpha2 \<rparr>]"
    by blast
  have "net4 = net[i := (net ! i)\<lparr> data_spike_moving_average := sma1, variance_moving_average := vma1,
                      forward_lif := lif1, mem := m,
                      mem_rec := deque_append MAX_RETAINED_MEMS (mem_rec (net ! i)) m,
                      epsilon_filter_second_term := eps1, alpha_filter_first_term := alpha1,
                      alpha_filter_second_term := alpha2 \<rparr>]"
    unfolding n4 n3 n2 n1 using assms(2) by simp
  with d0 show ?thesis by blast
qed


lemma update_weights_rule:
  assumes t1: "has_shape3 B n p t1" and t2: "has_shape3 B n p t2" and t3: "has_shape3 B n p t3"
      and w: "has_shape2 n p (weight (forward_weights self))"
      and B: "0 < B"
  shows "\<exists>w1. update_weights self t1 t2 t3
                 = Inr (self\<lparr> forward_weights := (forward_weights self)\<lparr> weight := w1 \<rparr> \<rparr>) \<and>
              has_shape2 n p w1 \<and>
              (\<forall>j<n. \<forall>k<p. w1 ! j ! k =
                 weight (forward_weights self) ! j ! k
                 + (\<Sum>b<B. t1 ! b ! j ! k * t2 ! b ! j ! k + t3 ! b ! j ! k) / real B)"
proof -
  define prod where "prod = map2 (map2 (map2 (*))) t1 t2"
  define dw_dt where "dw_dt = map2 (map2 (map2 (+))) prod t3"
  define dw where "dw = map2d (\<lambda>x. x / real (length dw_dt)) (sum0 dw_dt)"
  define w1 where "w1 = map2 (map2 (+)) (weight (forward_weights self)) dw"
  have prod_shape: "has_shape3 B n p prod"
    unfolding prod_def using t1 t2 by (rule map2_shape3)
  have dw_dt_shape: "has_shape3 B n p dw_dt"
    unfolding dw_dt_def using prod_shape t3 by (rule map2_shape3)
  have len: "length dw_dt = B" using dw_dt_shape by (simp add: has_shape3_def)
  have sum_shape: "has_shape2 n p (sum0 dw_dt)" using dw_dt_shape B by (rule sum0_shape)
  have dw_shape: "has_shape2 n p dw" unfolding dw_def using sum_shape by (rule map2d_shape2)
  have w1_shape: "has_shape2 n p w1" unfolding w1_def using w dw_shape by (rule map2_shape2)
  have e1: "ew3 (*) t1 t2 = Inr prod" unfolding prod_def using t1 t2 by (rule ew3_same_shape)
  have e2: "ew3 (+) prod t3 = Inr dw_dt"
    unfolding dw_dt_def using prod_shape t3 by (rule ew3_same_shape)
  have e3: "iadd2 (weight (forward_weights self)) dw = Inr w1"
    unfolding w1_def using w dw_shape by (rule iadd2_same_shape)
  have run: "update_weights self t1 t2 t3
               = Inr (self\<lparr> forward_weights := (forward_weights self)\<lparr> weight := w1 \<rparr> \<rparr>)"
    unfolding update_weights_def by (simp add: e1 e2 Let_def dw_def [symmetric] e3)
  have entry: "w1 ! j ! k = weight (forward_weights self) ! j ! k
                 + (\<Sum>b<B. t1 ! b ! j ! k * t2 ! b ! j ! k + t3 ! b ! j ! k) / real B"
    if j: "j < n" and k: "k < p" for j k
  proof -
    have "w1 ! j ! k = weight (forward_weights self) ! j ! k + dw ! j ! k"
      unfolding w1_def using w dw_shape j k by (rule map2_nth2)
    also have "dw ! j ! k = sum0 dw_dt ! j ! k / real B"
      unfolding dw_def using sum_shape j k by (simp add: map2d_nth len)
    also have "sum0 dw_dt ! j ! k = (\<Sum>b<B. dw_dt ! b ! j ! k)"
      using dw_dt_shape B j k by (rule sum0_nth)
    also have "\<dots> = (\<Sum>b<B. t1 ! b ! j ! k * t2 ! b ! j ! k + t3 ! b ! j ! k)"
    proof (rule sum.cong)
      fix b assume "b \<in> {..<B}"
      then have b: "b < B" by simp
      have "dw_dt ! b ! j ! k = prod ! b ! j ! k + t3 ! b ! j ! k"
        unfolding dw_dt_def using prod_shape t3 b j k by (rule map2_nth3)
      also have "prod ! b ! j ! k = t1 ! b ! j ! k * t2 ! b ! j ! k"
        unfolding prod_def using t1 t2 b j k by (rule map2_nth3)
      finally show "dw_dt ! b ! j ! k = t1 ! b ! j ! k * t2 ! b ! j ! k + t3 ! b ! j ! k" .
    qed simp
    finally show ?thesis .
  qed
  from run w1_shape entry show ?thesis by blast
qed

lemma update_weights_Inr:
  assumes "update_weights self t1 t2 t3 = Inr self1"
  shows "\<exists>w1. self1 = self\<lparr> forward_weights := (forward_weights self)\<lparr> weight := w1 \<rparr> \<rparr>"
  using assms unfolding update_weights_def Let_def
  by (auto simp: ebind_Inr_iff)

lemma train_forward_split:
  assumes "train_forward U net i data = Inr net'"
  shows "\<exists>t1 t2 t3 net4 self1.
           plasticity_terms U net i data = Inr ((t1, t2, t3), net4) \<and>
           update_weights (net4 ! i) t1 t2 t3 = Inr self1 \<and> net' = net4[i := self1]"
proof (cases "plasticity_terms U net i data")
  case (Inl e)
  with assms show ?thesis by (simp add: train_forward_def)
next
  case (Inr p)
  obtain t1 t2 t3 net4 where p: "p = ((t1, t2, t3), net4)" by (cases p) auto
  show ?thesis
  proof (cases "update_weights (net4 ! i) t1 t2 t3")
    case (Inl e)
    with assms Inr p show ?thesis by (simp add: train_forward_def)
  next
    case u: (Inr self1)
    with assms Inr p have "net' = net4[i := self1]" by (simp add: train_forward_def)
    with Inr p u show ?thesis by blast
  qed
qed

lemma plasticity_terms_frame:
  assumes "plasticity_terms U net i data = Inr (ts, net4)" and "i < length net"
  shows "net4 = net[i := net4 ! i] \<and>
         forward_weights (net4 ! i) = forward_weights (net ! i) \<and>
         layer_settings (net4 ! i) = layer_settings (net ! i) \<and>
         prev_layer (net4 ! i) = prev_layer (net ! i) \<and>
         next_layer (net4 ! i) = next_layer (net ! i) \<and>
         mem_rec (net4 ! i) = deque_append MAX_RETAINED_MEMS (mem_rec (net ! i)) (mem (net4 ! i)) \<and>
         data \<noteq> None"
  using plasticity_terms_Inr [OF assms] assms(2)
  by clarsimp

lemma train_forward_frame:
  assumes "train_forward U net i data = Inr net'" and "i < length net"
  shows "net' = net[i := net' ! i] \<and>
         (\<exists>w1. forward_weights (net' ! i) = (forward_weights (net ! i))\<lparr> weight := w1 \<rparr>) \<and>
         layer_settings (net' ! i) = layer_settings (net ! i) \<and>
         prev_layer (net' ! i) = prev_layer (net ! i) \<and>
         next_layer (net' ! i) = next_layer (net ! i) \<and>
         mem_rec (net' ! i) = deque_append MAX_RETAINED_MEMS (mem_rec (net ! i)) (mem (net' ! i)) \<and>
         data \<noteq> None"
proof -
  from train_forward_split [OF assms(1)] obtain t1 t2 t3 net4 self1 where
    a: "plasticity_terms U net i data = Inr ((t1, t2, t3), net4)"
    and b: "update_weights (net4 ! i) t1 t2 t3 = Inr self1"
    and c: "net' = net4[i := self1]"
    by blast
  from update_weights_Inr [OF b] obtain w1 where
    s: "self1 = (net4 ! i)\<lparr> forward_weights := (forward_weights (net4 ! i))\<lparr> weight := w1 \<rparr> \<rparr>"
    by blast
  note f = plasticity_terms_frame [OF a assms(2)]
  have len: "length net4 = length net" using f by (metis length_list_update)
  have i4: "i < length net4" using len assms(2) by simp
  have n': "net' ! i = self1" unfolding c using i4 by simp
  have "net' = net[i := self1]"
  proof -
    have "net' = (net[i := net4 ! i])[i := self1]" using c f by simp
    then show ?thesis by simp
  qed
  then have 1: "net' = net[i := net' ! i]" using n' by simp
  have 2: "forward_weights (net' ! i) = (forward_weights (net ! i))\<lparr> weight := w1 \<rparr>"
    unfolding n' s using f by simp
  have 3: "layer_settings (net' ! i) = layer_settings (net ! i)"
    "prev_layer (net' ! i) = prev_layer (net ! i)"
    "next_layer (net' ! i) = next_layer (net ! i)"
    "mem_rec (net' ! i) = deque_append MAX_RETAINED_MEMS (mem_rec (net ! i)) (mem (net' ! i))"
    unfolding n' s using f by simp_all
  from 1 2 3 f show ?thesis by blast
qed

subsection \<open>The bounded deque and the retained membranes\<close>

lemma deque_append_length_le:
  "length xs \<le> maxlen \<Longrightarrow> length (deque_append maxlen xs x) \<le> maxlen"
  by (simp add: deque_append_def Let_def)

lemma deque_append_full:
  "length xs = maxlen \<Longrightarrow> 0 < maxlen \<Longrightarrow> deque_append maxlen xs x = tl xs @ [x]"
  by (cases xs) (simp_all add: deque_append_def Let_def)

lemma deque_append_length_full:
  "length xs = maxlen \<Longrightarrow> 0 < maxlen \<Longrightarrow> length (deque_append maxlen xs x) = maxlen"
  by (simp add: deque_append_full)

lemma deque_append_last:
  "0 < maxlen \<Longrightarrow> index_neg (deque_append maxlen xs x) 1 = Inr x"
  by (cases xs) (auto simp: deque_append_def Let_def index_neg_def nth_append)

lemma deque_append_second:
  "length xs = maxlen \<Longrightarrow> 1 < maxlen
     \<Longrightarrow> index_neg (deque_append maxlen xs x) 2 = index_neg xs 1"
  by (cases xs) (auto simp: deque_append_def Let_def index_neg_def nth_append)

lemma deque_append_drop:
  "length xs \<le> maxlen \<Longrightarrow>
     deque_append maxlen xs x = drop (length (xs @ [x]) - maxlen) (xs @ [x])"
  by (cases xs) (auto simp: deque_append_def Let_def Suc_diff_le)

lemma Layer_init_mem_rec:
  "mem_rec (Layer_init U ls w0 b0)
     = [zeros2 (mls_batch_size ls) (mls_size ls), zeros2 (mls_batch_size ls) (mls_size ls)]"
  by (simp add: Layer_init_def Let_def deque_append_def MAX_RETAINED_MEMS_def)

lemma train_forward_None: "train_forward U net i None =
    Inl (case prev_layer (net ! i) of None \<Rightarrow> AssertionError | Some prv \<Rightarrow> AttributeError)"
  unfolding train_forward_def plasticity_terms_def update_data_trackers_def Let_def
  by (simp add: forward_None)

lemma two_retained_update:
  "two_retained net \<Longrightarrow> length (mem_rec L) = 2 \<Longrightarrow> two_retained (net[i := L])"
  unfolding two_retained_def list_all_length
proof (intro allI impI)
  fix n
  assume a: "\<forall>n<length net. length (mem_rec (net ! n)) = 2" and l: "length (mem_rec L) = 2"
    and n: "n < length (net[i := L])"
  show "length (mem_rec (net[i := L] ! n)) = 2"
    using a l n by (cases "n = i") simp_all
qed

lemma two_retained_nth: "two_retained net \<Longrightarrow> i < length net \<Longrightarrow> length (mem_rec (net ! i)) = 2"
  unfolding two_retained_def list_all_length by simp

lemma forward_two_retained:
  assumes "forward U net i data = Inr (r, net')" and "i < length net" and "two_retained net"
  shows "two_retained net' \<and> length net' = length net"
proof -
  obtain spk m where r: "r = (spk, m)" by (cases r)
  from forward_Inr [OF assms(1) [unfolded r]] obtain lif1 where
    n: "net' = net[i := (net ! i)\<lparr> forward_lif := lif1, mem := m,
                      mem_rec := deque_append MAX_RETAINED_MEMS (mem_rec (net ! i)) m \<rparr>]"
    by blast
  have "length (deque_append MAX_RETAINED_MEMS (mem_rec (net ! i)) m) = 2"
    using two_retained_nth [OF assms(3,2)]
    by (simp add: MAX_RETAINED_MEMS_def deque_append_length_full)
  then show ?thesis unfolding n using assms(3) by (simp add: two_retained_update)
qed

lemma train_forward_two_retained:
  assumes "train_forward U net i data = Inr net'" and "i < length net" and "two_retained net"
  shows "two_retained net' \<and> length net' = length net"
proof -
  note f = train_forward_frame [OF assms(1,2)]
  have n: "net' = net[i := net' ! i]" using f by simp
  have "length (mem_rec (net' ! i)) = 2"
    using f two_retained_nth [OF assms(3,2)]
    by (simp add: MAX_RETAINED_MEMS_def deque_append_length_full)
  then have "two_retained (net[i := net' ! i])" using assms(3) by (simp add: two_retained_update)
  moreover have "length net' = length net" using n by (metis length_list_update)
  ultimately show ?thesis using n by simp
qed

lemma model_layers_loop_two_retained:
  "model_layers_loop U data idxs net = Inr net' \<Longrightarrow> list_all (\<lambda>i. i < length net) idxs
     \<Longrightarrow> two_retained net \<Longrightarrow> two_retained net' \<and> length net' = length net"
proof (induction idxs arbitrary: net)
  case Nil
  then show ?case by simp
next
  case (Cons i idxs)
  from Cons.prems(1) obtain net1 where
    a: "train_forward U net i (if i = 0 then Some data else None) = Inr net1"
    and b: "model_layers_loop U data idxs net1 = Inr net'"
    by (auto simp: ebind_Inr_iff split: if_splits)
  have i: "i < length net" using Cons.prems(2) by simp
  have s: "two_retained net1 \<and> length net1 = length net"
    using train_forward_two_retained [OF a i Cons.prems(3)] .
  have "list_all (\<lambda>i. i < length net1) idxs" using Cons.prems(2) s by simp
  from Cons.IH [OF b this] s show ?case by simp
qed

lemma model_timesteps_loop_two_retained:
  "model_timesteps_loop U spike_trains ts net = Inr net'
     \<Longrightarrow> two_retained net \<Longrightarrow> two_retained net' \<and> length net' = length net"
proof (induction ts arbitrary: net)
  case Nil
  then show ?case by simp
next
  case (Cons t ts)
  from Cons.prems(1) obtain net1 where
    a: "model_layers_loop U (spike_trains ! t) [0..<length net] net = Inr net1"
    and b: "model_timesteps_loop U spike_trains ts net1 = Inr net'"
    by (auto simp: ebind_Inr_iff)
  have "list_all (\<lambda>i. i < length net) [0..<length net]" by (simp add: list_all_iff)
  from model_layers_loop_two_retained [OF a this Cons.prems(2)]
  have s: "two_retained net1 \<and> length net1 = length net" .
  from Cons.IH [OF b] s show ?case by simp
qed

lemma model_batches_loop_two_retained:
  "model_batches_loop U rate_of batches net = Inr net'
     \<Longrightarrow> two_retained net \<Longrightarrow> two_retained net' \<and> length net' = length net"
proof (induction batches arbitrary: net)
  case Nil
  then show ?case by simp
next
  case (Cons p batches)
  obtain i batch0 where p: "p = (i, batch0)" by (cases p)
  from Cons.prems(1) obtain net1 where
    a: "model_timesteps_loop U (rate_of i (permute_1_0_2 batch0))
          [0..<length (rate_of i (permute_1_0_2 batch0))] net = Inr net1"
    and b: "model_batches_loop U rate_of batches net1 = Inr net'"
    unfolding p by (auto simp: ebind_Inr_iff Let_def)
  from model_timesteps_loop_two_retained [OF a Cons.prems(2)]
  have s: "two_retained net1 \<and> length net1 = length net" .
  from Cons.IH [OF b] s show ?case by simp
qed

lemma model_epochs_loop_two_retained:
  "model_epochs_loop U rate train_loader es net = Inr net'
     \<Longrightarrow> two_retained net \<Longrightarrow> two_retained net' \<and> length net' = length net"
proof (induction es arbitrary: net)
  case Nil
  then show ?case by simp
next
  case (Cons e es)
  from Cons.prems(1) obtain net1 where
    a: "model_batches_loop U (rate e) (enumerate 0 train_loader) net = Inr net1"
    and b: "model_epochs_loop U rate train_loader es net1 = Inr net'"
    by (auto simp: ebind_Inr_iff)
  from model_batches_loop_two_retained [OF a Cons.prems(2)]
  have s: "two_retained net1 \<and> length net1 = length net" .
  from Cons.IH [OF b] s show ?case by simp
qed

lemma connect_layers_mem_rec:
  "map mem_rec (connect_layers ls) = map mem_rec ls"
  unfolding connect_layers_def
  by (rule nth_equalityI) (simp_all add: nth_enumerate_eq Let_def set_prev_layer_def set_next_layer_def)

lemma connect_layers_prev:
  "i < length ls \<Longrightarrow>
     prev_layer (connect_layers ls ! i) = (if i > 0 then Some (i - 1) else prev_layer (ls ! i))"
  unfolding connect_layers_def
  by (cases "i = 0") (simp_all add: nth_enumerate_eq Let_def set_prev_layer_def set_next_layer_def)

lemma Net_init_length:
  "length (mn_layers (model_Net_init U s w0 b0)) = length (ms_layer_sizes s)"
  by (simp add: model_Net_init_def connect_layers_def network_layer_settings_def)

lemma Net_init_mem_rec:
  assumes "i < length (ms_layer_sizes s)"
  shows "mem_rec (mn_layers (model_Net_init U s w0 b0) ! i)
           = [zeros2 (ms_batch_size s) (ms_layer_sizes s ! i),
              zeros2 (ms_batch_size s) (ms_layer_sizes s ! i)]"
proof -
  let ?ls = "map (\<lambda>(i, layer_spec). Layer_init U layer_spec (w0 i) (b0 i))
               (enumerate 0 (network_layer_settings s))"
  have len: "length ?ls = length (ms_layer_sizes s)"
    by (simp add: network_layer_settings_def)
  have "mem_rec (connect_layers ?ls ! i) = map mem_rec (connect_layers ?ls) ! i"
    using assms len by (simp add: connect_layers_def)
  also have "\<dots> = mem_rec (?ls ! i)"
    unfolding connect_layers_mem_rec using assms len by simp
  also have "\<dots> = [zeros2 (ms_batch_size s) (ms_layer_sizes s ! i),
              zeros2 (ms_batch_size s) (ms_layer_sizes s ! i)]"
    using assms
    by (simp add: nth_enumerate_eq network_layer_settings_def Layer_init_mem_rec)
  finally show ?thesis by (simp add: model_Net_init_def)
qed

lemma Net_init_two_retained: "two_retained (mn_layers (model_Net_init U s w0 b0))"
  unfolding two_retained_def list_all_length
  by (simp add: Net_init_length Net_init_mem_rec)

subsection \<open>The claims about forward and the membrane history\<close>

lemma mems_bounded_update:
  "mems_bounded net \<Longrightarrow> length (mem_rec L) \<le> MAX_RETAINED_MEMS \<Longrightarrow> mems_bounded (net[i := L])"
  unfolding mems_bounded_def list_all_length
proof (intro allI impI)
  fix n
  assume a: "\<forall>n<length net. length (mem_rec (net ! n)) \<le> MAX_RETAINED_MEMS"
    and l: "length (mem_rec L) \<le> MAX_RETAINED_MEMS"
    and n: "n < length (net[i := L])"
  show "length (mem_rec (net[i := L] ! n)) \<le> MAX_RETAINED_MEMS"
    using a l n by (cases "n = i") simp_all
qed

lemma mems_bounded_nth:
  "mems_bounded net \<Longrightarrow> i < length net \<Longrightarrow> length (mem_rec (net ! i)) \<le> MAX_RETAINED_MEMS"
  unfolding mems_bounded_def list_all_length by simp

text \<open>
  C7, as the code has it: a call of \<open>Layer.forward\<close>, with or without data, that returns
  leaves \<open>forward_weights\<close> of the layer as it was and leaves every other layer as it
  was; in the layer itself it changes the stored membrane \<open>mem\<close>, the membrane history
  \<open>mem_rec\<close> and, besides these two, the state of the layer's own neuron object
  \<open>forward_lif\<close>, which becomes the state the neuron's call left; the spike and the
  membrane returned are the ones the neuron returned.
\<close>

theorem forward_keeps_weights:
  assumes "forward U net i data = Inr ((spk, m), net')" and "i < length net"
  shows "forward_weights (net' ! i) = forward_weights (net ! i)
       \<and> length net' = length net
       \<and> (\<forall>j. j \<noteq> i \<longrightarrow> net' ! j = net ! j)
       \<and> (\<exists>current lif1.
             lif_call U (forward_lif (net ! i)) current (mem (net ! i)) = Inr ((spk, m), lif1)
             \<and> net' ! i = (net ! i)\<lparr> forward_lif := lif1, mem := m,
                   mem_rec := deque_append MAX_RETAINED_MEMS (mem_rec (net ! i)) m \<rparr>)"
proof -
  from forward_Inr [OF assms(1)] obtain current lif1 where
    c: "lif_call U (forward_lif (net ! i)) current (mem (net ! i)) = Inr ((spk, m), lif1)"
    and n: "net' = net[i := (net ! i)\<lparr> forward_lif := lif1, mem := m,
                      mem_rec := deque_append MAX_RETAINED_MEMS (mem_rec (net ! i)) m \<rparr>]"
    by blast
  have frame: "forward_weights (net' ! i) = forward_weights (net ! i)"
    "length net' = length net" "\<forall>j. j \<noteq> i \<longrightarrow> net' ! j = net ! j"
    "net' ! i = (net ! i)\<lparr> forward_lif := lif1, mem := m,
                   mem_rec := deque_append MAX_RETAINED_MEMS (mem_rec (net ! i)) m \<rparr>"
    unfolding n using assms(2) by simp_all
  with c show ?thesis by blast
qed

text \<open>
  A forward call with data on the one-layer network returns; the weights stay and the
  neuron's state is the one its call left.
\<close>

theorem forward_keeps_weights_witness:
  "\<exists>spk m net'. forward plain_util (plain_net [1]) 0 (Some [[1, 0]]) = Inr ((spk, m), net')
      \<and> 0 < length (plain_net [1])
      \<and> forward_weights (net' ! 0) = forward_weights (plain_net [1] ! 0)
      \<and> (\<exists>current lif1.
            lif_call plain_util (forward_lif (plain_net [1] ! 0)) current (mem (plain_net [1] ! 0))
              = Inr ((spk, m), lif1)
            \<and> forward_lif (net' ! 0) = lif1)"
proof -
  have "\<not> isl (forward plain_util (plain_net [1]) 0 (Some [[1, 0]]))" by code_simp
  then obtain r where "forward plain_util (plain_net [1]) 0 (Some [[1, 0]]) = Inr r"
    by (cases "forward plain_util (plain_net [1]) 0 (Some [[1, 0]])") auto
  then obtain spk m net' where
    f: "forward plain_util (plain_net [1]) 0 (Some [[1, 0]]) = Inr ((spk, m), net')"
    by (cases r) auto
  have l: "0 < length (plain_net [1])" by code_simp
  from forward_keeps_weights [OF f l] obtain current lif1 where
    w: "forward_weights (net' ! 0) = forward_weights (plain_net [1] ! 0)"
    and c: "lif_call plain_util (forward_lif (plain_net [1] ! 0)) current (mem (plain_net [1] ! 0))
              = Inr ((spk, m), lif1)"
    and n: "net' ! 0 = (plain_net [1] ! 0)\<lparr> forward_lif := lif1, mem := m,
                   mem_rec := deque_append MAX_RETAINED_MEMS (mem_rec (plain_net [1] ! 0)) m \<rparr>"
    by blast
  from n have "forward_lif (net' ! 0) = lif1" by simp
  with f l w c show ?thesis by blast
qed

text \<open>
  C7, as the claim states it, fails: the claim has \<open>forward\<close> change nothing of the layer
  but the membrane and the membrane history, yet the call also changes the state of the
  layer's neuron object. \<open>train_forward\<close> counts on that: right after its \<open>forward\<close>
  call it reads \<open>forward_lif.spike_moving_average.spike_rec[-1]\<close> as the most recent
  spike (lines 176 and 209). On the one-layer network with the plain collaborators the
  spikes the neuron retains are two zero tensors before the call and a zero tensor and
  the new spike after it.
\<close>

theorem forward_changes_neuron_state_counterexample:
  "\<not> isl (forward plain_util (plain_net [1]) 0 (Some [[1, 0]]))
   \<and> forward_lif (plain_net [1] ! 0) = [[[0]], [[0]]]
   \<and> forward_lif (snd (projr (forward plain_util (plain_net [1]) 0 (Some [[1, 0]]))) ! 0)
       = [[[0]], [[1]]]
   \<and> [[[0]], [[1 :: real]]] \<noteq> [[[0]], [[0]]]"
  by code_simp

text \<open>
  C8: \<open>MAX_RETAINED_MEMS\<close> is 2; a new layer retains no more than that; a \<open>forward\<close>
  call that returns keeps the bound, puts the new membrane at \<open>mem_rec[-1]\<close> and, when
  the deque was full, drops the oldest entry, so that \<open>mem_rec[-2]\<close> is what
  \<open>mem_rec[-1]\<close> was before the call; \<open>train_forward\<close> keeps the bound for every layer.
\<close>

theorem mem_rec_bounded_fifo:
  "MAX_RETAINED_MEMS = 2
   \<and> length (mem_rec (Layer_init U ls w0 b0)) \<le> MAX_RETAINED_MEMS
   \<and> (\<forall>net i data spk m net'.
         i < length net \<longrightarrow> length (mem_rec (net ! i)) \<le> MAX_RETAINED_MEMS \<longrightarrow>
         forward U net i data = Inr ((spk, m), net') \<longrightarrow>
           length (mem_rec (net' ! i)) \<le> MAX_RETAINED_MEMS
           \<and> index_neg (mem_rec (net' ! i)) 1 = Inr m
           \<and> (length (mem_rec (net ! i)) = MAX_RETAINED_MEMS \<longrightarrow>
                mem_rec (net' ! i) = tl (mem_rec (net ! i)) @ [m]
                \<and> index_neg (mem_rec (net' ! i)) 2 = index_neg (mem_rec (net ! i)) 1))
   \<and> (\<forall>net i data net'.
         i < length net \<longrightarrow> mems_bounded net \<longrightarrow> train_forward U net i data = Inr net' \<longrightarrow>
           mems_bounded net')"
proof (intro conjI allI impI)
  show "MAX_RETAINED_MEMS = 2" by (simp add: MAX_RETAINED_MEMS_def)
next
  show "length (mem_rec (Layer_init U ls w0 b0)) \<le> MAX_RETAINED_MEMS"
    by (simp add: Layer_init_mem_rec MAX_RETAINED_MEMS_def)
next
  fix net :: "('a, 'b, 'c, 'd) Layer list" and i data spk m net'
  assume i: "i < length net" and le: "length (mem_rec (net ! i)) \<le> MAX_RETAINED_MEMS"
    and f: "forward U net i data = Inr ((spk, m), net')"
  from forward_Inr [OF f] obtain lif1 where
    n: "net' = net[i := (net ! i)\<lparr> forward_lif := lif1, mem := m,
                      mem_rec := deque_append MAX_RETAINED_MEMS (mem_rec (net ! i)) m \<rparr>]"
    by blast
  have mr: "mem_rec (net' ! i) = deque_append MAX_RETAINED_MEMS (mem_rec (net ! i)) m"
    unfolding n using i by simp
  show "length (mem_rec (net' ! i)) \<le> MAX_RETAINED_MEMS"
    unfolding mr using le by (rule deque_append_length_le)
  show "index_neg (mem_rec (net' ! i)) 1 = Inr m"
    unfolding mr by (rule deque_append_last) (simp add: MAX_RETAINED_MEMS_def)
  {
    assume full: "length (mem_rec (net ! i)) = MAX_RETAINED_MEMS"
    show "mem_rec (net' ! i) = tl (mem_rec (net ! i)) @ [m]"
      unfolding mr using full by (rule deque_append_full) (simp add: MAX_RETAINED_MEMS_def)
    show "index_neg (mem_rec (net' ! i)) 2 = index_neg (mem_rec (net ! i)) 1"
      unfolding mr using full by (rule deque_append_second) (simp add: MAX_RETAINED_MEMS_def)
  }
next
  fix net :: "('a, 'b, 'c, 'd) Layer list" and i data net'
  assume i: "i < length net" and b: "mems_bounded net"
    and t: "train_forward U net i data = Inr net'"
  note f = train_forward_frame [OF t i]
  have "length (mem_rec (net' ! i)) \<le> MAX_RETAINED_MEMS"
    using f mems_bounded_nth [OF b i] by (simp add: deque_append_length_le)
  then have "mems_bounded (net[i := net' ! i])" using b by (simp add: mems_bounded_update)
  then show "mems_bounded net'" using f by simp
qed

text \<open>The first forward call of the one-layer network: the zero entry moves to the left, the new membrane is on the right.\<close>

theorem mem_rec_bounded_fifo_witness:
  "\<exists>spk m net'. forward plain_util (plain_net [1]) 0 (Some [[1, 0]]) = Inr ((spk, m), net')
      \<and> length (mem_rec (plain_net [1] ! 0)) = MAX_RETAINED_MEMS
      \<and> length (mem_rec (net' ! 0)) \<le> MAX_RETAINED_MEMS
      \<and> mem_rec (net' ! 0) = [[[0]], m]"
proof -
  have "\<not> isl (forward plain_util (plain_net [1]) 0 (Some [[1, 0]]))" by code_simp
  then obtain r where "forward plain_util (plain_net [1]) 0 (Some [[1, 0]]) = Inr r"
    by (cases "forward plain_util (plain_net [1]) 0 (Some [[1, 0]])") auto
  then obtain spk m net' where
    f: "forward plain_util (plain_net [1]) 0 (Some [[1, 0]]) = Inr ((spk, m), net')"
    by (cases r) auto
  have l: "0 < length (plain_net [1])" by code_simp
  have old: "mem_rec (plain_net [1] ! 0) = [[[0]], [[0]]]" by code_simp
  have full: "length (mem_rec (plain_net [1] ! 0)) = MAX_RETAINED_MEMS"
    unfolding old by (simp add: MAX_RETAINED_MEMS_def)
  from mem_rec_bounded_fifo [of plain_util] l full f
  have "length (mem_rec (net' ! 0)) \<le> MAX_RETAINED_MEMS
        \<and> mem_rec (net' ! 0) = tl (mem_rec (plain_net [1] ! 0)) @ [m]"
    by (metis order_refl)
  with f full old show ?thesis by auto
qed

lemma Layer_init_prev_layer: "prev_layer (Layer_init U ls w0 b0) = None"
  by (simp add: Layer_init_def Let_def)

lemma Net_init_prev_layer:
  assumes "i < length (ms_layer_sizes s)"
      and "prev_layer (mn_layers (model_Net_init U s w0 b0) ! i) = Some prv"
  shows "0 < i \<and> prv = i - 1"
proof -
  let ?ls = "map (\<lambda>(i, layer_spec). Layer_init U layer_spec (w0 i) (b0 i))
               (enumerate 0 (network_layer_settings s))"
  have len: "length ?ls = length (ms_layer_sizes s)"
    by (simp add: network_layer_settings_def)
  have i: "i < length ?ls" using assms(1) len by simp
  have p0: "prev_layer (?ls ! i) = None"
    using assms(1) by (simp add: nth_enumerate_eq network_layer_settings_def Layer_init_prev_layer)
  have "prev_layer (connect_layers ?ls ! i) = (if i > 0 then Some (i - 1) else prev_layer (?ls ! i))"
    using i by (rule connect_layers_prev)
  with assms(2) p0 show ?thesis by (auto simp: model_Net_init_def split: if_splits)
qed

text \<open>
  C9: a new layer's \<open>mem_rec\<close> holds exactly two zero tensors of shape
  (batch_size, size), and reading \<open>[-1]\<close> and \<open>[-2]\<close> yields them; every layer of a
  new network retains two, and a layer's read of its predecessor's \<open>mem_rec[-1]\<close> in
  the new network yields zeros; where two are retained both reads are defined;
  \<open>forward\<close>, \<open>train_forward\<close> and a whole run of \<open>process_data_online\<close> keep the
  count at two for every layer.
\<close>

theorem mem_rec_always_two:
  "mem_rec (Layer_init U ls w0 b0)
     = [zeros2 (mls_batch_size ls) (mls_size ls), zeros2 (mls_batch_size ls) (mls_size ls)]
   \<and> index_neg (mem_rec (Layer_init U ls w0 b0)) 1 = Inr (zeros2 (mls_batch_size ls) (mls_size ls))
   \<and> index_neg (mem_rec (Layer_init U ls w0 b0)) 2 = Inr (zeros2 (mls_batch_size ls) (mls_size ls))
   \<and> two_retained (mn_layers (model_Net_init U s w1 b1))
   \<and> (\<forall>i prv. i < length (ms_layer_sizes s) \<longrightarrow>
         prev_layer (mn_layers (model_Net_init U s w1 b1) ! i) = Some prv \<longrightarrow>
           index_neg (mem_rec (mn_layers (model_Net_init U s w1 b1) ! prv)) 1
             = Inr (zeros2 (ms_batch_size s) (ms_layer_sizes s ! prv)))
   \<and> (\<forall>(net :: ('e, 'f, 'g, 'h) Layer list) i. two_retained net \<longrightarrow> i < length net \<longrightarrow>
         index_neg (mem_rec (net ! i)) 1 = Inr (mem_rec (net ! i) ! 1)
         \<and> index_neg (mem_rec (net ! i)) 2 = Inr (mem_rec (net ! i) ! 0))
   \<and> (\<forall>net i data r net'. two_retained net \<longrightarrow> i < length net \<longrightarrow>
         forward U net i data = Inr (r, net') \<longrightarrow> two_retained net')
   \<and> (\<forall>net i data net'. two_retained net \<longrightarrow> i < length net \<longrightarrow>
         train_forward U net i data = Inr net' \<longrightarrow> two_retained net')
   \<and> (\<forall>rate train_loader net'.
         model_process_data_online U rate (model_Net_init U s w1 b1) train_loader = Inr net' \<longrightarrow>
           two_retained (mn_layers net'))"
proof (intro conjI allI impI)
  show "mem_rec (Layer_init U ls w0 b0)
     = [zeros2 (mls_batch_size ls) (mls_size ls), zeros2 (mls_batch_size ls) (mls_size ls)]"
    by (rule Layer_init_mem_rec)
  show "index_neg (mem_rec (Layer_init U ls w0 b0)) 1 = Inr (zeros2 (mls_batch_size ls) (mls_size ls))"
    by (simp add: Layer_init_mem_rec index_neg_def)
  show "index_neg (mem_rec (Layer_init U ls w0 b0)) 2 = Inr (zeros2 (mls_batch_size ls) (mls_size ls))"
    by (simp add: Layer_init_mem_rec index_neg_def)
  show "two_retained (mn_layers (model_Net_init U s w1 b1))"
    by (rule Net_init_two_retained)
next
  fix i prv
  assume i: "i < length (ms_layer_sizes s)"
    and p: "prev_layer (mn_layers (model_Net_init U s w1 b1) ! i) = Some prv"
  from Net_init_prev_layer [OF i p] i have "prv < length (ms_layer_sizes s)" by simp
  then show "index_neg (mem_rec (mn_layers (model_Net_init U s w1 b1) ! prv)) 1
             = Inr (zeros2 (ms_batch_size s) (ms_layer_sizes s ! prv))"
    by (simp add: Net_init_mem_rec index_neg_def)
next
  fix net :: "('e, 'f, 'g, 'h) Layer list" and i
  assume "two_retained net" and "i < length net"
  then have "length (mem_rec (net ! i)) = 2" by (rule two_retained_nth)
  then show "index_neg (mem_rec (net ! i)) 1 = Inr (mem_rec (net ! i) ! 1)"
    and "index_neg (mem_rec (net ! i)) 2 = Inr (mem_rec (net ! i) ! 0)"
    by (simp_all add: index_neg_def)
next
  fix net :: "('a, 'b, 'c, 'd) Layer list" and i data r net'
  assume "two_retained net" and "i < length net" and "forward U net i data = Inr (r, net')"
  then show "two_retained net'" using forward_two_retained by blast
next
  fix net :: "('a, 'b, 'c, 'd) Layer list" and i data net'
  assume "two_retained net" and "i < length net" and "train_forward U net i data = Inr net'"
  then show "two_retained net'" using train_forward_two_retained by blast
next
  fix rate train_loader net'
  assume r: "model_process_data_online U rate (model_Net_init U s w1 b1) train_loader = Inr net'"
  then obtain layers1 where
    e: "model_epochs_loop U rate train_loader
          [0..<nat (ms_epochs (mn_settings (model_Net_init U s w1 b1)))]
          (mn_layers (model_Net_init U s w1 b1)) = Inr layers1"
    and n: "net' = (model_Net_init U s w1 b1)\<lparr> mn_layers := layers1 \<rparr>"
    unfolding model_process_data_online_def by (auto simp: ebind_Inr_iff)
  from model_epochs_loop_two_retained [OF e Net_init_two_retained]
  show "two_retained (mn_layers net')" unfolding n by simp
qed

text \<open>A training step of the one-layer network returns and two membranes are retained after it.\<close>

theorem mem_rec_always_two_witness:
  "two_retained (plain_net [1]) \<and> 0 < length (plain_net [1])
   \<and> (\<exists>net'. train_forward plain_util (plain_net [1]) 0 (Some [[1, 0]]) = Inr net'
         \<and> two_retained net')"
proof -
  have "\<not> isl (train_forward plain_util (plain_net [1]) 0 (Some [[1, 0]]))" by code_simp
  then obtain net' where
    t: "train_forward plain_util (plain_net [1]) 0 (Some [[1, 0]]) = Inr net'"
    by (cases "train_forward plain_util (plain_net [1]) 0 (Some [[1, 0]])") auto
  have l: "0 < length (plain_net [1])" by code_simp
  have two: "two_retained (plain_net [1])" by code_simp
  from mem_rec_always_two [of plain_util] two l t have "two_retained net'" by blast
  with two l t show ?thesis by blast
qed

text \<open>
  C10, on the code: \<open>train_forward\<close> without data on a layer that has a previous layer,
  which is what the training loop calls on every layer but the first, raises
  AttributeError inside its \<open>forward\<close> call (the read of \<open>spk_rec\<close>), before the neuron
  is called: no membrane is advanced and no update is computed, and the run ends. The
  claim (every call advances the membrane by one step, once per layer per timestep)
  does not hold of the code for networks of more than one layer.
\<close>

theorem train_forward_without_data_raises:
  assumes "prev_layer (net ! i) = Some prv"
  shows "train_forward U net i None = Inl AttributeError"
  using assms by (simp add: train_forward_None)

text \<open>The network of two layers: the second layer has a previous layer, its \<open>train_forward\<close> raises, and so does the whole run on one batch of one timestep.\<close>

theorem train_forward_without_data_raises_witness:
  "prev_layer (plain_net [1, 1] ! 1) = Some 0
   \<and> train_forward plain_util (plain_net [1, 1]) 1 None = Inl AttributeError
   \<and> model_process_data_online plain_util (\<lambda>epoch i batch. batch)
        (model_Net_init plain_util (plain_settings [1, 1]) (\<lambda>i j k. 2) (\<lambda>i j. 0)) [[[[1, 0]]]]
      = Inl AttributeError"
proof -
  have p: "prev_layer (plain_net [1, 1] ! 1) = Some 0" by code_simp
  have r: "model_process_data_online plain_util (\<lambda>epoch i batch. batch)
        (model_Net_init plain_util (plain_settings [1, 1]) (\<lambda>i j k. 2) (\<lambda>i j. 0)) [[[[1, 0]]]]
      = Inl AttributeError" by code_simp
  from train_forward_without_data_raises [OF p] p r show ?thesis by blast
qed

subsection \<open>The claims about the weight update\<close>

text \<open>A new layer's weight matrix has the shape (size, prev_size).\<close>

lemma Layer_init_weight_shape:
  "has_shape2 (mls_size ls) (mls_prev_size ls) (weight (forward_weights (Layer_init U ls w0 b0)))"
  by (simp add: Layer_init_def Linear_init_def Let_def has_shape2_def list_all_iff)

text \<open>
  C1: when the three terms of a training step have the shape (B, n, p) with B at least
  1 and the weight matrix has the shape (n, p), \<open>train_forward\<close> returns, the weight
  matrix keeps its shape, the bias stays, and entry (j, k) of the new weights is the old
  entry plus the sum over the batch of \<open>term1 * term2 + term3\<close> at (b, j, k), divided by
  the batch size B. (n is the layer's size and p the size of the previous layer.)
\<close>

theorem weight_update_rule:
  assumes i: "i < length net"
      and terms: "plasticity_terms U net i data = Inr ((t1, t2, t3), net4)"
      and t1: "has_shape3 B n p t1" and t2: "has_shape3 B n p t2" and t3: "has_shape3 B n p t3"
      and w: "has_shape2 n p (weight (forward_weights (net ! i)))"
      and B: "0 < B"
  shows "\<exists>net'. train_forward U net i data = Inr net'
           \<and> has_shape2 n p (weight (forward_weights (net' ! i)))
           \<and> bias (forward_weights (net' ! i)) = bias (forward_weights (net ! i))
           \<and> (\<forall>j<n. \<forall>k<p.
                 weight (forward_weights (net' ! i)) ! j ! k =
                   weight (forward_weights (net ! i)) ! j ! k
                   + (\<Sum>b<B. t1 ! b ! j ! k * t2 ! b ! j ! k + t3 ! b ! j ! k) / real B)"
proof -
  note f = plasticity_terms_frame [OF terms i]
  have fw: "forward_weights (net4 ! i) = forward_weights (net ! i)" using f by simp
  have "length net4 = length net" using f by (metis length_list_update)
  then have i4: "i < length net4" using i by simp
  have w4: "has_shape2 n p (weight (forward_weights (net4 ! i)))" using w fw by simp
  from update_weights_rule [OF t1 t2 t3 w4 B] obtain w1 where
    u: "update_weights (net4 ! i) t1 t2 t3
          = Inr ((net4 ! i)\<lparr> forward_weights := (forward_weights (net4 ! i))\<lparr> weight := w1 \<rparr> \<rparr>)"
    and s: "has_shape2 n p w1"
    and e: "\<forall>j<n. \<forall>k<p. w1 ! j ! k =
              weight (forward_weights (net4 ! i)) ! j ! k
              + (\<Sum>b<B. t1 ! b ! j ! k * t2 ! b ! j ! k + t3 ! b ! j ! k) / real B"
    by blast
  let ?net' = "net4[i := (net4 ! i)\<lparr> forward_weights := (forward_weights (net4 ! i))\<lparr> weight := w1 \<rparr> \<rparr>]"
  have run: "train_forward U net i data = Inr ?net'"
    by (simp add: train_forward_def terms u)
  have at: "forward_weights (?net' ! i) = (forward_weights (net ! i))\<lparr> weight := w1 \<rparr>"
    using i4 fw by simp
  show ?thesis
  proof (intro exI conjI)
    show "train_forward U net i data = Inr ?net'" by (rule run)
    show "has_shape2 n p (weight (forward_weights (?net' ! i)))" unfolding at using s by simp
    show "bias (forward_weights (?net' ! i)) = bias (forward_weights (net ! i))"
      unfolding at by simp
    show "\<forall>j<n. \<forall>k<p.
                 weight (forward_weights (?net' ! i)) ! j ! k =
                   weight (forward_weights (net ! i)) ! j ! k
                   + (\<Sum>b<B. t1 ! b ! j ! k * t2 ! b ! j ! k + t3 ! b ! j ! k) / real B"
      unfolding at using e fw by simp
  qed
qed

text \<open>One training step of the one-layer network on the input (1, 0): the first weight moves from 2 by the rule.\<close>

theorem weight_update_rule_witness:
  "\<exists>net'. train_forward plain_util (plain_net [1]) 0 (Some [[1, 0]]) = Inr net'
      \<and> weight (forward_weights (plain_net [1] ! 0)) ! 0 ! 0 = 2
      \<and> weight (forward_weights (net' ! 0)) ! 0 ! 0 = 2 + (1 / 22500 * (- 1) + 1 / 10000000) / 1"
proof -
  let ?r = "projr (plasticity_terms plain_util (plain_net [1]) 0 (Some [[1, 0]]))"
  let ?t1 = "fst (fst ?r)" and ?t2 = "fst (snd (fst ?r))" and ?t3 = "snd (snd (fst ?r))"
  have "\<not> isl (plasticity_terms plain_util (plain_net [1]) 0 (Some [[1, 0]]))" by code_simp
  then have terms: "plasticity_terms plain_util (plain_net [1]) 0 (Some [[1, 0]])
                      = Inr ((?t1, ?t2, ?t3), snd ?r)"
    by (cases "plasticity_terms plain_util (plain_net [1]) 0 (Some [[1, 0]])") auto
  have i: "0 < length (plain_net [1])" by code_simp
  have t1: "has_shape3 1 1 2 ?t1" by code_simp
  have t2: "has_shape3 1 1 2 ?t2" by code_simp
  have t3: "has_shape3 1 1 2 ?t3" by code_simp
  have w: "has_shape2 1 2 (weight (forward_weights (plain_net [1] ! 0)))" by code_simp
  have v: "weight (forward_weights (plain_net [1] ! 0)) ! 0 ! 0 = 2"
    "?t1 ! 0 ! 0 ! 0 = 1 / 22500" "?t2 ! 0 ! 0 ! 0 = - 1" "?t3 ! 0 ! 0 ! 0 = 1 / 10000000"
    by code_simp+
  from weight_update_rule [OF i terms t1 t2 t3 w] obtain net' where
    run: "train_forward plain_util (plain_net [1]) 0 (Some [[1, 0]]) = Inr net'"
    and e: "\<forall>j<1. \<forall>k<2. weight (forward_weights (net' ! 0)) ! j ! k =
                   weight (forward_weights (plain_net [1] ! 0)) ! j ! k
                   + (\<Sum>b<1. ?t1 ! b ! j ! k * ?t2 ! b ! j ! k + ?t3 ! b ! j ! k) / real 1"
    by auto
  from e have "weight (forward_weights (net' ! 0)) ! 0 ! 0 =
                   weight (forward_weights (plain_net [1] ! 0)) ! 0 ! 0
                   + (?t1 ! 0 ! 0 ! 0 * ?t2 ! 0 ! 0 ! 0 + ?t3 ! 0 ! 0 ! 0) / 1"
    by simp
  then have "weight (forward_weights (net' ! 0)) ! 0 ! 0 = 2 + (1 / 22500 * (- 1) + 1 / 10000000) / 1"
    unfolding v .
  with run v(1) show ?thesis by blast
qed

lemma expand_unsqueeze1:
  "expand_dim1 n (unsqueeze1 y) = Inr (map (\<lambda>row. replicate n row) y)"
proof -
  have "collect (map (\<lambda>row. expand_to n [row]) y) = Inr (map (\<lambda>row. replicate n row) y)"
    by (rule collect_map_Inr) (auto simp: expand_to_def)
  then show ?thesis by (simp add: expand_dim1_def unsqueeze1_def comp_def)
qed

lemma second_term_no_filter_entries:
  assumes s1: "has_shape2 B p s1" and s2: "has_shape2 B p s2"
      and avg: "has_shape2 B p avg" and var: "has_shape2 B p var"
  shows "\<exists>nf. second_term_no_filter s1 s2 avg var = Inr nf \<and> has_shape2 B p nf \<and>
           (\<forall>b<B. \<forall>k<p. nf ! b ! k =
              - (s1 ! b ! k - s2 ! b ! k)
              + LAMBDA_HEBBIAN / (var ! b ! k + XI) * (s1 ! b ! k - avg ! b ! k))"
proof -
  define diff where "diff = map2 (map2 (-)) s1 s2"
  define neg where "neg = map2d (\<lambda>x. - 1 * x) diff"
  define gain where "gain = map2d (\<lambda>x. LAMBDA_HEBBIAN / x) (map2d (\<lambda>x. x + XI) var)"
  define dev where "dev = map2 (map2 (-)) s1 avg"
  define hebb where "hebb = map2 (map2 (*)) gain dev"
  define nf where "nf = map2 (map2 (+)) neg hebb"
  have diff_s: "has_shape2 B p diff" unfolding diff_def using s1 s2 by (rule map2_shape2)
  have neg_s: "has_shape2 B p neg" unfolding neg_def using diff_s by (rule map2d_shape2)
  have var1_s: "has_shape2 B p (map2d (\<lambda>x. x + XI) var)" using var by (rule map2d_shape2)
  have gain_s: "has_shape2 B p gain" unfolding gain_def using var1_s by (rule map2d_shape2)
  have dev_s: "has_shape2 B p dev" unfolding dev_def using s1 avg by (rule map2_shape2)
  have hebb_s: "has_shape2 B p hebb" unfolding hebb_def using gain_s dev_s by (rule map2_shape2)
  have nf_s: "has_shape2 B p nf" unfolding nf_def using neg_s hebb_s by (rule map2_shape2)
  have e1: "ew2 (-) s1 s2 = Inr diff" unfolding diff_def using s1 s2 by (rule ew2_same_shape)
  have e2: "ew2 (-) s1 avg = Inr dev" unfolding dev_def using s1 avg by (rule ew2_same_shape)
  have e3: "ew2 (*) gain dev = Inr hebb" unfolding hebb_def using gain_s dev_s by (rule ew2_same_shape)
  have e4: "ew2 (+) neg hebb = Inr nf" unfolding nf_def using neg_s hebb_s by (rule ew2_same_shape)
  have run: "second_term_no_filter s1 s2 avg var = Inr nf"
    unfolding second_term_no_filter_def
    by (simp add: e1 Let_def neg_def [symmetric] gain_def [symmetric] e2 e3 e4)
  have entry: "nf ! b ! k = - (s1 ! b ! k - s2 ! b ! k)
              + LAMBDA_HEBBIAN / (var ! b ! k + XI) * (s1 ! b ! k - avg ! b ! k)"
    if b: "b < B" and k: "k < p" for b k
  proof -
    have "nf ! b ! k = neg ! b ! k + hebb ! b ! k"
      unfolding nf_def using neg_s hebb_s b k by (rule map2_nth2)
    moreover have "neg ! b ! k = - 1 * diff ! b ! k"
      unfolding neg_def using diff_s b k by (rule map2d_nth)
    moreover have "diff ! b ! k = s1 ! b ! k - s2 ! b ! k"
      unfolding diff_def using s1 s2 b k by (rule map2_nth2)
    moreover have "hebb ! b ! k = gain ! b ! k * dev ! b ! k"
      unfolding hebb_def using gain_s dev_s b k by (rule map2_nth2)
    moreover have "gain ! b ! k = LAMBDA_HEBBIAN / (map2d (\<lambda>x. x + XI) var ! b ! k)"
      unfolding gain_def using var1_s b k by (rule map2d_nth)
    moreover have "map2d (\<lambda>x. x + XI) var ! b ! k = var ! b ! k + XI"
      using var b k by (rule map2d_nth)
    moreover have "dev ! b ! k = s1 ! b ! k - avg ! b ! k"
      unfolding dev_def using s1 avg b k by (rule map2_nth2)
    ultimately show ?thesis by simp
  qed
  from run nf_s entry show ?thesis by blast
qed

text \<open>
  C6: the second term reads, of the presynaptic side (the layer's own data trackers for
  the first layer, the neuron of the previous layer otherwise), the two retained spikes
  \<open>s1 = spike_rec[-1]\<close> and \<open>s2 = spike_rec[-2]\<close>, the spike average and the variance
  average. When these have one shape (B, p), the unfiltered term has that shape and its
  entry (b, k) is \<open>- (s1 - s2) + LAMBDA_HEBBIAN / (var + XI) * (s1 - avg)\<close> at (b, k),
  with \<open>XI\<close> positive; the term is then given to the alpha filter of the second term,
  and what the filter returns is repeated for each of the layer's \<open>size\<close> units.
\<close>

theorem second_term_formula:
  assumes stats: "presynaptic_stats U net i = Inr (s1, s2, avg, var)"
      and s1: "has_shape2 B p s1" and s2: "has_shape2 B p s2"
      and avg: "has_shape2 B p avg" and var: "has_shape2 B p var"
  shows "0 < XI
       \<and> (\<exists>sma vma.
             sma = (case prev_layer (net ! i) of
                      None \<Rightarrow> data_spike_moving_average (net ! i)
                    | Some prv \<Rightarrow> spike_moving_average U (forward_lif (net ! prv)))
           \<and> vma = (case prev_layer (net ! i) of
                      None \<Rightarrow> variance_moving_average (net ! i)
                    | Some prv \<Rightarrow> lif_variance_moving_average U (forward_lif (net ! prv)))
           \<and> index_neg (spike_rec U sma) 1 = Inr s1
           \<and> index_neg (spike_rec U sma) 2 = Inr s2
           \<and> sma_tracked_value U sma = Inr avg
           \<and> vma_tracked_value U vma = Inr var)
       \<and> (\<exists>nf. second_term_no_filter s1 s2 avg var = Inr nf
             \<and> has_shape2 B p nf
             \<and> (\<forall>b<B. \<forall>k<p. nf ! b ! k =
                   - (s1 ! b ! k - s2 ! b ! k)
                   + LAMBDA_HEBBIAN / (var ! b ! k + XI) * (s1 ! b ! k - avg ! b ! k))
             \<and> (\<forall>filtered alpha1.
                   filter_apply2 U (alpha_filter_second_term (net ! i)) nf = Inr (filtered, alpha1) \<longrightarrow>
                   second_term U net i =
                     Inr (map (\<lambda>row. replicate (mls_size (layer_settings (net ! i))) row) filtered,
                          net[i := (net ! i)\<lparr> alpha_filter_second_term := alpha1 \<rparr>])))"
proof (intro conjI)
  show "0 < XI" by (simp add: XI_def)
next
  show "\<exists>sma vma.
             sma = (case prev_layer (net ! i) of
                      None \<Rightarrow> data_spike_moving_average (net ! i)
                    | Some prv \<Rightarrow> spike_moving_average U (forward_lif (net ! prv)))
           \<and> vma = (case prev_layer (net ! i) of
                      None \<Rightarrow> variance_moving_average (net ! i)
                    | Some prv \<Rightarrow> lif_variance_moving_average U (forward_lif (net ! prv)))
           \<and> index_neg (spike_rec U sma) 1 = Inr s1
           \<and> index_neg (spike_rec U sma) 2 = Inr s2
           \<and> sma_tracked_value U sma = Inr avg
           \<and> vma_tracked_value U vma = Inr var"
    using stats unfolding presynaptic_stats_def Let_def
    by (auto simp: ebind_Inr_iff)
next
  from second_term_no_filter_entries [OF s1 s2 avg var] obtain nf where
    run: "second_term_no_filter s1 s2 avg var = Inr nf" and shape: "has_shape2 B p nf"
    and entry: "\<forall>b<B. \<forall>k<p. nf ! b ! k =
                   - (s1 ! b ! k - s2 ! b ! k)
                   + LAMBDA_HEBBIAN / (var ! b ! k + XI) * (s1 ! b ! k - avg ! b ! k)"
    by blast
  have after: "second_term U net i =
                     Inr (map (\<lambda>row. replicate (mls_size (layer_settings (net ! i))) row) filtered,
                          net[i := (net ! i)\<lparr> alpha_filter_second_term := alpha1 \<rparr>])"
    if "filter_apply2 U (alpha_filter_second_term (net ! i)) nf = Inr (filtered, alpha1)"
    for filtered alpha1
    unfolding second_term_def Let_def
    by (simp add: stats run that expand_unsqueeze1)
  from run shape entry after
  show "\<exists>nf. second_term_no_filter s1 s2 avg var = Inr nf
             \<and> has_shape2 B p nf
             \<and> (\<forall>b<B. \<forall>k<p. nf ! b ! k =
                   - (s1 ! b ! k - s2 ! b ! k)
                   + LAMBDA_HEBBIAN / (var ! b ! k + XI) * (s1 ! b ! k - avg ! b ! k))
             \<and> (\<forall>filtered alpha1.
                   filter_apply2 U (alpha_filter_second_term (net ! i)) nf = Inr (filtered, alpha1) \<longrightarrow>
                   second_term U net i =
                     Inr (map (\<lambda>row. replicate (mls_size (layer_settings (net ! i))) row) filtered,
                          net[i := (net ! i)\<lparr> alpha_filter_second_term := alpha1 \<rparr>]))"
    by blast
qed

text \<open>The first layer after its trackers saw the input (1, 0): the unfiltered term is (-1, 0).\<close>

theorem second_term_formula_witness:
  "presynaptic_stats plain_util
       (projr (update_data_trackers plain_util (plain_net [1]) 0 (Some [[1, 0]]))) 0
     = Inr ([[1, 0]], [[0, 0]], [[1, 0]], [[0, 0]])
   \<and> (\<exists>nf. second_term_no_filter [[1, 0]] [[0, 0]] [[1, 0]] [[0, 0]] = Inr nf
         \<and> nf ! 0 ! 0 = - 1 \<and> nf ! 0 ! 1 = 0)"
proof -
  let ?net = "projr (update_data_trackers plain_util (plain_net [1]) 0 (Some [[1, 0]]))"
  have stats: "presynaptic_stats plain_util ?net 0 = Inr ([[1, 0]], [[0, 0]], [[1, 0]], [[0, 0]])"
    by code_simp
  have sh: "has_shape2 1 2 [[1, 0]]" "has_shape2 1 2 [[0, 0]]"
    by (simp_all add: has_shape2_def)
  from second_term_formula [OF stats sh(1) sh(2) sh(1) sh(2)] obtain nf where
    run: "second_term_no_filter [[1, 0]] [[0, 0]] [[1, 0]] [[0, 0]] = Inr nf"
    and entry: "\<forall>b<1. \<forall>k<2. nf ! b ! k =
                   - ([[1, 0]] ! b ! k - [[0, 0]] ! b ! k)
                   + LAMBDA_HEBBIAN / ([[0, 0]] ! b ! k + XI) * ([[1, 0 :: real]] ! b ! k - [[1, 0]] ! b ! k)"
    by blast
  from entry have "nf ! 0 ! 0 = - 1" by simp
  moreover from entry have "nf ! 0 ! 1 = 0" by simp
  ultimately show ?thesis using stats run by blast
qed

end
